theory Spec2Isabelle
  imports Main "HOL-Library.Word"
begin

section \<open>ewfverify: the command line tool around the verification handle\<close>

text \<open>
  The development embeds \<^verbatim>\<open>src/ewftools/ewfverify.c\<close>: the signal handler
  \<^verbatim>\<open>ewfverify_signal_handler\<close>, the usage text and \<^verbatim>\<open>main\<close>. The
  functions of libsystem, liberror, libewf and of the verification and log handles are
  called by \<^verbatim>\<open>main\<close> but defined elsewhere; what they return in one execution is
  an input of the model (the record \<open>world\<close>), and every call is written to a trace.
\<close>

subsection \<open>Constants and the string comparison\<close>

text \<open>The values of \<^verbatim>\<open>stdlib.h\<close>.\<close>

definition EXIT_SUCCESS :: int where
  "EXIT_SUCCESS = 0"

definition EXIT_FAILURE :: int where
  "EXIT_FAILURE = 1"

definition program :: string where
  "program = ''ewfverify''"

text \<open>
  \<^verbatim>\<open>libcstring_system_string_compare( string1, string2, size )\<close> is a macro for the C
  library's comparison of the first \<open>size\<close> characters of two NUL terminated strings
  (\<^verbatim>\<open>strncmp\<close>): it stops at the first difference, at the end of a string, or
  after \<open>size\<close> characters. A string is modelled without its terminator, so the end
  of a string compares as the character 0.
\<close>

fun libcstring_system_string_compare :: "string \<Rightarrow> string \<Rightarrow> nat \<Rightarrow> int" where
  "libcstring_system_string_compare string1 string2 0 = 0"
| "libcstring_system_string_compare [] [] (Suc n) = 0"
| "libcstring_system_string_compare [] (c2 # string2) (Suc n) = - 1"
| "libcstring_system_string_compare (c1 # string1) [] (Suc n) = 1"
| "libcstring_system_string_compare (c1 # string1) (c2 # string2) (Suc n) =
     (if c1 = c2 then libcstring_system_string_compare string1 string2 n
      else if (of_char c1 :: nat) < of_char c2 then - 1 else 1)"

subsection \<open>The verification handle and the calls of the program\<close>

text \<open>
  Of \<^verbatim>\<open>verification_handle_t\<close> the program reads two members, \<^verbatim>\<open>input_format\<close>
  (line 478, a \<^verbatim>\<open>uint8_t\<close>) and \<^verbatim>\<open>process_buffer_size\<close> (line 444, a
  \<^verbatim>\<open>size_t\<close>, of 64 bits here), and writes the second (line 446). The other members
  are only used behind the handle's functions. Of these functions, which are not part of
  the sources, the model takes \<^verbatim>\<open>verification_handle_set_format\<close> to be the one that
  writes \<^verbatim>\<open>input_format\<close> and \<^verbatim>\<open>verification_handle_set_process_buffer_size\<close>
  the one that writes \<^verbatim>\<open>process_buffer_size\<close>; what they write is an input of the
  model.
\<close>

record verification_handle =
  input_format :: "8 word"
  process_buffer_size :: "64 word"

datatype stream = stdout | stderr

text \<open>
  One constructor per function the program calls, with the arguments that vary. The two
  verification drivers record the handle they are given and
  \<^verbatim>\<open>print_status_information\<close>.
\<close>

datatype event =
    fprintf stream string
  | libsystem_notify_set_stream
  | libsystem_notify_set_verbose "8 word"
  | libsystem_notify_printf string
  | libsystem_notify_print_error_backtrace
  | liberror_error_free
  | libsystem_initialize
  | ewfoutput_version_fprint
  | ewfoutput_copyright_fprint
  | libewf_notify_set_verbose "8 word"
  | libewf_notify_set_stream
  | libsystem_glob_initialize
  | libsystem_glob_resolve "string list"
  | libsystem_glob_free
  | verification_handle_initialize "8 word" "8 word" "8 word"
  | libsystem_signal_attach
  | libsystem_signal_detach
  | verification_handle_open_input "string list"
  | verification_handle_set_header_codepage string
  | verification_handle_set_format string
  | verification_handle_set_zero_chunk_on_error "8 word"
  | verification_handle_set_process_buffer_size string
  | log_handle_initialize
  | log_handle_open string
  | log_handle_close
  | log_handle_free
  | verification_handle_verify_single_files verification_handle "8 word"
  | verification_handle_verify_input verification_handle "8 word"
  | verification_handle_close
  | verification_handle_free
  | verification_handle_signal_abort
  | libsystem_file_io_close int

text \<open>
  The places of \<^verbatim>\<open>main\<close>, named by the line where each starts. A place holds at
  most one call that can block, so a signal is delivered at a place.
\<close>

datatype pc =
    L158_libsystem_initialize
  | L174_version_fprint
  | L178_getopt
  | L268_check_filenames
  | L279_notify
  | L288_glob_initialize
  | L298_glob_resolve
  | L317_handle_initialize
  | L330_signal_attach
  | L343_open_input
  | L349_check_abort
  | L353_check_open
  | L362_glob_free
  | L373_header_codepage
  | L395_format
  | L417_zero_chunk_on_error
  | L428_process_buffer_size
  | L453_log_handle
  | L478_verify
  | L518_status
  | L526_log_close
  | L549_on_abort
  | L562_handle_close
  | L573_handle_free
  | L583_report
  | L608_on_error

text \<open>What one call of \<^verbatim>\<open>libsystem_getopt\<close> leaves: its result and the globals it sets.\<close>

record getopt_return =
  g_option :: char
  g_optarg :: string
  g_optind :: nat

text \<open>
  The world of one execution: the command line, what \<^verbatim>\<open>libsystem_getopt\<close> returns
  call after call (and \<^verbatim>\<open>optind\<close> once it returns -1), the result of every other
  call, whether a callee stores an error object, the handle
  \<^verbatim>\<open>verification_handle_initialize\<close> creates, the values the two setters leave in
  the members the program reads, the places where a signal arrives, and the constants of
  headers that are not part of the sources (\<^verbatim>\<open>process_status.h\<close>,
  \<^verbatim>\<open>verification_handle.h\<close>, \<^verbatim>\<open>limits.h\<close>) with the configuration
  macro \<^verbatim>\<open>LIBSYSTEM_HAVE_GLOB\<close>.
\<close>

record world =
  argv :: "string list"
  getopt_returns :: "getopt_return list"
  optind_final :: nat
  ret :: "event \<Rightarrow> int"
  reports_error :: "event \<Rightarrow> bool"
  glob_result :: "string list"
  new_handle :: verification_handle
  input_format_set :: "8 word"
  process_buffer_size_set :: "64 word"
  signal_at :: "pc \<Rightarrow> bool"
  LIBSYSTEM_HAVE_GLOB :: bool
  PROCESS_STATUS_COMPLETED :: int
  PROCESS_STATUS_FAILED :: int
  VERIFICATION_HANDLE_INPUT_FORMAT_FILES :: "8 word"
  SSIZE_MAX :: "64 word"

text \<open>
  The state: the two globals of the file, the variables of \<^verbatim>\<open>main\<close>, the calls
  made so far, the results \<^verbatim>\<open>libsystem_getopt\<close> has still to give, and whether
  the signal handler is attached. A pointer the program only tests against NULL is a
  boolean (\<open>True\<close>: not NULL).
\<close>

record state =
  ewfverify_verification_handle :: "verification_handle option"
  ewfverify_abort :: int
  handler_attached :: bool
  trace :: "event list"
  pending :: "getopt_return list"
  optind :: nat
  error :: bool
  argv_filenames :: "string list"
  glob :: bool
  log_filename :: "string option"
  option_format :: "string option"
  option_header_codepage :: "string option"
  option_process_buffer_size :: "string option"
  log_handle :: bool
  calculate_md5 :: "8 word"
  calculate_sha1 :: "8 word"
  calculate_sha256 :: "8 word"
  print_status_information :: "8 word"
  zero_chunk_on_error :: "8 word"
  verbose :: "8 word"
  result :: int
  status :: int

datatype config =
    Running pc state
  | Returned int state
  | Crashed state

subsection \<open>Calls, output and the usage text\<close>

text \<open>
  \<open>emit\<close> writes a call or an output to the trace. \<open>extern\<close> is a call that is
  given \<^verbatim>\<open>&error\<close>: the callee may store an error object there.
\<close>

definition emit :: "event \<Rightarrow> state \<Rightarrow> state" where
  "emit e s = s\<lparr>trace := trace s @ [e]\<rparr>"

definition extern :: "world \<Rightarrow> event \<Rightarrow> state \<Rightarrow> state" where
  "extern w e s = s\<lparr>trace := trace s @ [e], error := (error s \<or> reports_error w e)\<rparr>"

text \<open>
  \<^verbatim>\<open>libsystem_notify_print_error_backtrace( error ); liberror_error_free( &error );\<close>
  in \<^verbatim>\<open>main\<close>: the error is printed and the pointer is NULL again.
\<close>

definition print_and_free_error :: "state \<Rightarrow> state" where
  "print_and_free_error s =
     (emit liberror_error_free (emit libsystem_notify_print_error_backtrace s))\<lparr>error := False\<rparr>"

definition usage_text :: "string list" where
  "usage_text =
     [''Use ewfverify to verify data stored in the EWF format (Expert Witness\<newline>Compression Format).\<newline>\<newline>'',
      ''Usage: ewfverify [ -A codepage ] [ -d digest_type ] [ -f format ]\<newline>'' @
      ''                 [ -l log_filename ] [ -p process_buffer_size ]\<newline>'' @
      ''                 [ -hqvVw ] ewf_files\<newline>\<newline>'',
      CHR 0x09 # ''ewf_files: the first or the entire set of EWF segment files\<newline>\<newline>'',
      CHR 0x09 # ''-A:        codepage of header section, options: ascii (default),\<newline>'' @
      CHR 0x09 # ''           windows-874, windows-1250, windows-1251, windows-1252,\<newline>'' @
      CHR 0x09 # ''           windows-1253, windows-1254, windows-1255, windows-1256,\<newline>'' @
      CHR 0x09 # ''           windows-1257, windows-1258\<newline>'',
      CHR 0x09 # ''-d:        calculate additional digest (hash) types besides md5,\<newline>'' @
      CHR 0x09 # ''           options: sha1\<newline>'',
      CHR 0x09 # ''-f:        specify the input format, options: raw (default),\<newline>'' @
      CHR 0x09 # ''           files (restricted to logical volume files)\<newline>'',
      CHR 0x09 # ''-h:        shows this help\<newline>'',
      CHR 0x09 # ''-l:        logs verification errors and the digest (hash) to the\<newline>'' @
      CHR 0x09 # ''           log_filename\<newline>'',
      CHR 0x09 # ''-p:        specify the process buffer size (default is the chunk size)\<newline>'',
      CHR 0x09 # ''-q:        quiet shows minimal status information\<newline>'',
      CHR 0x09 # ''-v:        verbose output to stderr\<newline>'',
      CHR 0x09 # ''-V:        print version\<newline>'',
      CHR 0x09 # ''-w:        zero sectors on checksum error (mimic EnCase like behavior)\<newline>'']"

text \<open>\<^verbatim>\<open>usage_fprint\<close>: nothing for a NULL stream, else the lines of the usage text.\<close>

definition usage_fprint :: "stream option \<Rightarrow> state \<Rightarrow> state" where
  "usage_fprint st s =
     (case st of
        None \<Rightarrow> s
      | Some f \<Rightarrow> s\<lparr>trace := trace s @ map (fprintf f) usage_text\<rparr>)"

subsection \<open>The signal handler\<close>

text \<open>
  \<^verbatim>\<open>ewfverify_signal_handler\<close> (lines 86 to 121): the flag is set, the handle is
  told to abort when there is one, and stdin is closed. The error of the handler is a
  local of its own.
\<close>

definition ewfverify_signal_handler :: "world \<Rightarrow> state \<Rightarrow> state" where
  "ewfverify_signal_handler w s =
     (let s1 = s\<lparr>ewfverify_abort := 1\<rparr>;
          s2 = (if ewfverify_verification_handle s1 \<noteq> None
                then (let s' = emit verification_handle_signal_abort s1
                      in if ret w verification_handle_signal_abort \<noteq> 1
                         then emit liberror_error_free
                                (emit libsystem_notify_print_error_backtrace
                                  (emit (libsystem_notify_printf
                                     ''ewfverify_signal_handler: unable to signal verification handle to abort.\<newline>'') s'))
                         else s')
                else s1);
          s3 = emit (libsystem_file_io_close 0) s2
      in if ret w (libsystem_file_io_close 0) \<noteq> 0
         then emit (libsystem_notify_printf ''ewfverify_signal_handler: unable to close stdin.\<newline>'') s3
         else s3)"

text \<open>
  A signal that arrives at a place runs the handler once the statement of the place is
  done, provided the handler is attached.
\<close>

definition deliver :: "world \<Rightarrow> pc \<Rightarrow> state \<Rightarrow> state" where
  "deliver w p s =
     (if handler_attached s \<and> signal_at w p then ewfverify_signal_handler w s else s)"

subsection \<open>The main program\<close>

definition argv_at :: "world \<Rightarrow> nat \<Rightarrow> string" where
  "argv_at w i = (if i < length (argv w) then argv w ! i else [])"

text \<open>The declarations of \<^verbatim>\<open>main\<close> (lines 131 to 156) and of the two globals.\<close>

definition initial_state :: "world \<Rightarrow> state" where
  "initial_state w =
     \<lparr>ewfverify_verification_handle = None,
      ewfverify_abort = 0,
      handler_attached = False,
      trace = [],
      pending = getopt_returns w,
      optind = 1,
      error = False,
      argv_filenames = [],
      glob = False,
      log_filename = None,
      option_format = None,
      option_header_codepage = None,
      option_process_buffer_size = None,
      log_handle = False,
      calculate_md5 = 1,
      calculate_sha1 = 0,
      calculate_sha256 = 0,
      print_status_information = 1,
      zero_chunk_on_error = 0,
      verbose = 0,
      result = 0,
      status = 0\<rparr>"

text \<open>One iteration of the option loop (lines 183 to 266) for the option just returned.\<close>

definition getopt_case :: "world \<Rightarrow> char \<Rightarrow> string \<Rightarrow> state \<Rightarrow> config" where
  "getopt_case w opt optarg s =
     (if opt = CHR ''A'' then Running L178_getopt (s\<lparr>option_header_codepage := Some optarg\<rparr>)
      else if opt = CHR ''d'' then
        (if libcstring_system_string_compare optarg ''sha1'' 4 = 0
         then Running L178_getopt (s\<lparr>calculate_sha1 := 1\<rparr>)
         else if libcstring_system_string_compare optarg ''sha256'' 6 = 0
         then Running L178_getopt (s\<lparr>calculate_sha256 := 1\<rparr>)
         else Running L178_getopt (emit (fprintf stderr ''Unsupported digest type.\<newline>'') s))
      else if opt = CHR ''f'' then Running L178_getopt (s\<lparr>option_format := Some optarg\<rparr>)
      else if opt = CHR ''h'' then Returned EXIT_SUCCESS (usage_fprint (Some stdout) s)
      else if opt = CHR ''l'' then Running L178_getopt (s\<lparr>log_filename := Some optarg\<rparr>)
      else if opt = CHR ''p'' then Running L178_getopt (s\<lparr>option_process_buffer_size := Some optarg\<rparr>)
      else if opt = CHR ''q'' then Running L178_getopt (s\<lparr>print_status_information := 0\<rparr>)
      else if opt = CHR ''v'' then Running L178_getopt (s\<lparr>verbose := 1\<rparr>)
      else if opt = CHR ''V'' then Returned EXIT_SUCCESS (emit ewfoutput_copyright_fprint s)
      else if opt = CHR ''w'' then Running L178_getopt (s\<lparr>zero_chunk_on_error := 1\<rparr>)
      else Running L608_on_error
             (usage_fprint (Some stdout)
               (emit (fprintf stderr (''Invalid argument: '' @ argv_at w (optind s - 1) @ ''\<newline>'')) s)))"

text \<open>
  The cleanup at the label \<^verbatim>\<open>on_error\<close> (lines 608 to 642). The callees are given
  NULL for the error and their results are ignored; a free function that succeeds
  leaves the pointer NULL.
\<close>

definition on_error :: "world \<Rightarrow> state \<Rightarrow> config" where
  "on_error w s =
     (let s1 = (if error s then print_and_free_error s else s);
          s2 = (if log_handle s1
                then (emit log_handle_free (emit log_handle_close s1))
                       \<lparr>log_handle := (ret w log_handle_free \<noteq> 1)\<rparr>
                else s1);
          s3 = (if ewfverify_verification_handle s2 \<noteq> None
                then (emit verification_handle_free (emit verification_handle_close s2))
                       \<lparr>ewfverify_verification_handle :=
                          (if ret w verification_handle_free = 1 then None
                           else ewfverify_verification_handle s2)\<rparr>
                else s2);
          s4 = (if \<not> LIBSYSTEM_HAVE_GLOB w \<and> glob s3
                then (emit libsystem_glob_free s3)\<lparr>glob := (ret w libsystem_glob_free \<noteq> 1)\<rparr>
                else s3)
      in Returned EXIT_FAILURE s4)"

text \<open>
  The statement at each place and the place that follows. A dereference of the handle
  when it is NULL ends in \<open>Crashed\<close>.
\<close>

fun exec :: "world \<Rightarrow> pc \<Rightarrow> state \<Rightarrow> config" where
  "exec w L158_libsystem_initialize s =
     (let s1 = emit (libsystem_notify_set_verbose 1) (emit libsystem_notify_set_stream s);
          s2 = extern w libsystem_initialize s1
      in if ret w libsystem_initialize \<noteq> 1
         then Running L608_on_error (emit (fprintf stderr ''Unable to initialize system values.\<newline>'') s2)
         else Running L174_version_fprint s2)"
| "exec w L174_version_fprint s = Running L178_getopt (emit ewfoutput_version_fprint s)"
| "exec w L178_getopt s =
     (case pending s of
        [] \<Rightarrow> Running L268_check_filenames (s\<lparr>optind := optind_final w\<rparr>)
      | g # gs \<Rightarrow> getopt_case w (g_option g) (g_optarg g) (s\<lparr>pending := gs, optind := g_optind g\<rparr>))"
| "exec w L268_check_filenames s =
     (if optind s = length (argv w)
      then Running L608_on_error
             (usage_fprint (Some stdout) (emit (fprintf stderr ''Missing EWF image file(s).\<newline>'') s))
      else Running L279_notify s)"
| "exec w L279_notify s =
     (let s1 = emit libewf_notify_set_stream
                 (emit (libewf_notify_set_verbose (verbose s))
                   (emit (libsystem_notify_set_verbose (verbose s)) s))
      in if LIBSYSTEM_HAVE_GLOB w
         then Running L317_handle_initialize (s1\<lparr>argv_filenames := drop (optind s1) (argv w)\<rparr>)
         else Running L288_glob_initialize s1)"
| "exec w L288_glob_initialize s =
     (let s1 = extern w libsystem_glob_initialize s
      in if ret w libsystem_glob_initialize \<noteq> 1
         then Running L608_on_error (emit (fprintf stderr ''Unable to initialize glob.\<newline>'') s1)
         else Running L298_glob_resolve (s1\<lparr>glob := True\<rparr>))"
| "exec w L298_glob_resolve s =
     (let e = libsystem_glob_resolve (drop (optind s) (argv w));
          s1 = extern w e s
      in if ret w e \<noteq> 1
         then Running L608_on_error (emit (fprintf stderr ''Unable to resolve glob.\<newline>'') s1)
         else Running L317_handle_initialize (s1\<lparr>argv_filenames := glob_result w\<rparr>))"
| "exec w L317_handle_initialize s =
     (let e = verification_handle_initialize (calculate_md5 s) (calculate_sha1 s) (calculate_sha256 s);
          s1 = extern w e s
      in if ret w e \<noteq> 1
         then Running L608_on_error (emit (fprintf stderr ''Unable to create verification handle.\<newline>'') s1)
         else Running L330_signal_attach (s1\<lparr>ewfverify_verification_handle := Some (new_handle w)\<rparr>))"
| "exec w L330_signal_attach s =
     (let s1 = extern w libsystem_signal_attach s
      in if ret w libsystem_signal_attach \<noteq> 1
         then Running L343_open_input
                (print_and_free_error (emit (fprintf stderr ''Unable to attach signal handler.\<newline>'') s1))
         else Running L343_open_input (s1\<lparr>handler_attached := True\<rparr>))"
| "exec w L343_open_input s =
     (let e = verification_handle_open_input (argv_filenames s)
      in Running L349_check_abort ((extern w e s)\<lparr>result := ret w e\<rparr>))"
| "exec w L349_check_abort s =
     (if ewfverify_abort s \<noteq> 0 then Running L549_on_abort s else Running L353_check_open s)"
| "exec w L353_check_open s =
     (if result s \<noteq> 1
      then Running L608_on_error (emit (fprintf stderr ''Unable to open EWF image file(s).\<newline>'') s)
      else if LIBSYSTEM_HAVE_GLOB w then Running L373_header_codepage s
      else Running L362_glob_free s)"
| "exec w L362_glob_free s =
     (let s1 = extern w libsystem_glob_free s
      in if ret w libsystem_glob_free \<noteq> 1
         then Running L608_on_error (emit (fprintf stderr ''Unable to free glob.\<newline>'') s1)
         else Running L373_header_codepage (s1\<lparr>glob := False\<rparr>))"
| "exec w L373_header_codepage s =
     (case option_header_codepage s of
        None \<Rightarrow> Running L395_format s
      | Some codepage \<Rightarrow>
          (let e = verification_handle_set_header_codepage codepage;
               s1 = (extern w e s)\<lparr>result := ret w e\<rparr>
           in if result s1 = - 1
              then Running L608_on_error (emit (fprintf stderr ''Unable to set header codepage.\<newline>'') s1)
              else if result s1 = 0
              then Running L395_format
                     (emit (fprintf stderr ''Unsupported header codepage defaulting to: ascii.\<newline>'') s1)
              else Running L395_format s1))"
| "exec w L395_format s =
     (case option_format s of
        None \<Rightarrow> Running L417_zero_chunk_on_error s
      | Some format \<Rightarrow>
          (let e = verification_handle_set_format format;
               s1 = (extern w e s)
                      \<lparr>result := ret w e,
                       ewfverify_verification_handle :=
                         map_option (\<lambda>h. h\<lparr>input_format := input_format_set w\<rparr>)
                           (ewfverify_verification_handle s)\<rparr>
           in if result s1 = - 1
              then Running L608_on_error (emit (fprintf stderr ''Unable to set format.\<newline>'') s1)
              else if result s1 = 0
              then Running L417_zero_chunk_on_error
                     (emit (fprintf stderr ''Unsupported input format defaulting to: raw.\<newline>'') s1)
              else Running L417_zero_chunk_on_error s1))"
| "exec w L417_zero_chunk_on_error s =
     (let e = verification_handle_set_zero_chunk_on_error (zero_chunk_on_error s);
          s1 = extern w e s
      in if ret w e \<noteq> 1
         then Running L608_on_error (emit (fprintf stderr ''Unable to set zero on chunk error.\<newline>'') s1)
         else Running L428_process_buffer_size s1)"
| "exec w L428_process_buffer_size s =
     (case option_process_buffer_size s of
        None \<Rightarrow> Running L453_log_handle s
      | Some size_string \<Rightarrow>
          (let e = verification_handle_set_process_buffer_size size_string;
               s1 = (extern w e s)
                      \<lparr>result := ret w e,
                       ewfverify_verification_handle :=
                         map_option (\<lambda>h. h\<lparr>process_buffer_size := process_buffer_size_set w\<rparr>)
                           (ewfverify_verification_handle s)\<rparr>
           in if result s1 = - 1
              then Running L608_on_error (emit (fprintf stderr ''Unable to set process buffer size.\<newline>'') s1)
              else (case ewfverify_verification_handle s1 of
                      None \<Rightarrow> Crashed s1
                    | Some h \<Rightarrow>
                        if result s1 = 0 \<or> process_buffer_size h > SSIZE_MAX w
                        then Running L453_log_handle
                               (emit (fprintf stderr
                                        ''Unsupported process buffer size defaulting to: chunk size.\<newline>'')
                                  (s1\<lparr>ewfverify_verification_handle :=
                                         Some (h\<lparr>process_buffer_size := 0\<rparr>)\<rparr>))
                        else Running L453_log_handle s1)))"
| "exec w L453_log_handle s =
     (case log_filename s of
        None \<Rightarrow> Running L478_verify s
      | Some filename \<Rightarrow>
          (let s1 = extern w log_handle_initialize s
           in if ret w log_handle_initialize \<noteq> 1
              then Running L608_on_error (emit (fprintf stderr ''Unable to create log handle.\<newline>'') s1)
              else (let s2 = extern w (log_handle_open filename) (s1\<lparr>log_handle := True\<rparr>)
                    in if ret w (log_handle_open filename) \<noteq> 1
                       then Running L608_on_error
                              (emit (fprintf stderr (''Unable to open log file: '' @ filename @ ''.\<newline>'')) s2)
                       else Running L478_verify s2)))"
| "exec w L478_verify s =
     (case ewfverify_verification_handle s of
        None \<Rightarrow> Crashed s
      | Some h \<Rightarrow>
          if input_format h = VERIFICATION_HANDLE_INPUT_FORMAT_FILES w
          then (let e = verification_handle_verify_single_files h (print_status_information s);
                    s1 = (extern w e s)\<lparr>result := ret w e\<rparr>
                in if result s1 \<noteq> 1
                   then Running L518_status
                          (print_and_free_error (emit (fprintf stderr ''Unable to verify single files.\<newline>'') s1))
                   else Running L518_status s1)
          else (let e = verification_handle_verify_input h (print_status_information s);
                    s1 = (extern w e s)\<lparr>result := ret w e\<rparr>
                in if result s1 \<noteq> 1
                   then Running L518_status
                          (print_and_free_error (emit (fprintf stderr ''Unable to verify input.\<newline>'') s1))
                   else Running L518_status s1))"
| "exec w L518_status s =
     (if result s \<noteq> 1
      then Running L526_log_close (s\<lparr>status := PROCESS_STATUS_FAILED w\<rparr>)
      else Running L526_log_close (s\<lparr>status := PROCESS_STATUS_COMPLETED w\<rparr>))"
| "exec w L526_log_close s =
     (if log_handle s
      then (let s1 = extern w log_handle_close s
            in if ret w log_handle_close \<noteq> 0
               then Running L608_on_error (emit (fprintf stderr ''Unable to close log handle.\<newline>'') s1)
               else (let s2 = extern w log_handle_free s1
                     in if ret w log_handle_free \<noteq> 1
                        then Running L608_on_error (emit (fprintf stderr ''Unable to free log handle.\<newline>'') s2)
                        else Running L549_on_abort (s2\<lparr>log_handle := False\<rparr>)))
      else Running L549_on_abort s)"
| "exec w L549_on_abort s =
     (let s1 = extern w libsystem_signal_detach s
      in if ret w libsystem_signal_detach \<noteq> 1
         then Running L562_handle_close
                (print_and_free_error (emit (fprintf stderr ''Unable to detach signal handler.\<newline>'') s1))
         else Running L562_handle_close (s1\<lparr>handler_attached := False\<rparr>))"
| "exec w L562_handle_close s =
     (let s1 = extern w verification_handle_close s
      in if ret w verification_handle_close \<noteq> 0
         then Running L608_on_error (emit (fprintf stderr ''Unable to close EWF file(s).\<newline>'') s1)
         else Running L573_handle_free s1)"
| "exec w L573_handle_free s =
     (let s1 = extern w verification_handle_free s
      in if ret w verification_handle_free \<noteq> 1
         then Running L608_on_error (emit (fprintf stderr ''Unable to free verification handle.\<newline>'') s1)
         else Running L583_report (s1\<lparr>ewfverify_verification_handle := None\<rparr>))"
| "exec w L583_report s =
     (if ewfverify_abort s \<noteq> 0
      then Returned EXIT_FAILURE (emit (fprintf stdout (program @ '': ABORTED\<newline>'')) s)
      else if status s \<noteq> PROCESS_STATUS_COMPLETED w
      then Returned EXIT_FAILURE (emit (fprintf stdout (program @ '': FAILURE\<newline>'')) s)
      else Returned EXIT_SUCCESS (emit (fprintf stdout (program @ '': SUCCESS\<newline>'')) s))"
| "exec w L608_on_error s = on_error w s"

text \<open>A step: the statement of the place, then a signal if one arrives there.\<close>

definition step :: "world \<Rightarrow> pc \<Rightarrow> state \<Rightarrow> config" where
  "step w p s =
     (case exec w p s of
        Running p' s' \<Rightarrow> Running p' (deliver w p s')
      | Returned r s' \<Rightarrow> Returned r s'
      | Crashed s' \<Rightarrow> Crashed s')"

text \<open>
  The places are passed in the order of the text, and only the option loop returns to
  its own place, with one result of \<^verbatim>\<open>libsystem_getopt\<close> fewer to come: the
  program ends.
\<close>

fun height :: "pc \<Rightarrow> nat" where
  "height L158_libsystem_initialize = 26"
| "height L174_version_fprint = 25"
| "height L178_getopt = 24"
| "height L268_check_filenames = 23"
| "height L279_notify = 22"
| "height L288_glob_initialize = 21"
| "height L298_glob_resolve = 20"
| "height L317_handle_initialize = 19"
| "height L330_signal_attach = 18"
| "height L343_open_input = 17"
| "height L349_check_abort = 16"
| "height L353_check_open = 15"
| "height L362_glob_free = 14"
| "height L373_header_codepage = 13"
| "height L395_format = 12"
| "height L417_zero_chunk_on_error = 11"
| "height L428_process_buffer_size = 10"
| "height L453_log_handle = 9"
| "height L478_verify = 8"
| "height L518_status = 7"
| "height L526_log_close = 6"
| "height L549_on_abort = 5"
| "height L562_handle_close = 4"
| "height L573_handle_free = 3"
| "height L583_report = 2"
| "height L608_on_error = 1"

fun rank :: "config \<Rightarrow> nat" where
  "rank (Running p s) = height p + length (pending s)"
| "rank (Returned r s) = 0"
| "rank (Crashed s) = 0"

text \<open>The execution from a configuration: every configuration passed, the last one final.\<close>

function execution :: "world \<Rightarrow> config \<Rightarrow> config list" where
  "execution w (Running p s) = Running p s # execution w (step w p s)"
| "execution w (Returned r s) = [Returned r s]"
| "execution w (Crashed s) = [Crashed s]"
  by pat_completeness auto
termination
proof (relation "measure (\<lambda>(w, c). rank c)")
  show "wf (measure (\<lambda>(w, c). rank c))"
    by simp
next
  fix w p s
  have same: "pending (deliver w p s') = pending s'" for s'
    by (simp add: deliver_def ewfverify_signal_handler_def emit_def Let_def)
  have "rank (exec w p s) < rank (Running p s)"
    by (cases p)
       (auto simp: Let_def emit_def extern_def print_and_free_error_def usage_fprint_def
          getopt_case_def on_error_def split: list.splits option.splits)
  then have "rank (step w p s) < rank (Running p s)"
    by (cases "exec w p s") (auto simp: step_def same)
  then show "((w, step w p s), (w, Running p s)) \<in> measure (\<lambda>(w, c). rank c)"
    by simp
qed

definition run :: "world \<Rightarrow> config \<Rightarrow> config" where
  "run w c = last (execution w c)"

definition start :: "world \<Rightarrow> config" where
  "start w = Running L158_libsystem_initialize (initial_state w)"

definition main :: "world \<Rightarrow> config" where
  "main w = run w (start w)"

text \<open>What is observed of a configuration: its state, and the exit status once returned.\<close>

fun state_of :: "config \<Rightarrow> state" where
  "state_of (Running p s) = s"
| "state_of (Returned r s) = s"
| "state_of (Crashed s) = s"

fun exit_status :: "config \<Rightarrow> int option" where
  "exit_status (Returned r s) = Some r"
| "exit_status (Running p s) = None"
| "exit_status (Crashed s) = None"

definition calls :: "world \<Rightarrow> event list" where
  "calls w = trace (state_of (main w))"

text \<open>The state in which an execution first is at a place, if it ever is.\<close>

fun states_at :: "pc \<Rightarrow> config list \<Rightarrow> state list" where
  "states_at p [] = []"
| "states_at p (Running p' s # cs) = (if p' = p then s # states_at p cs else states_at p cs)"
| "states_at p (c # cs) = states_at p cs"

definition state_at :: "world \<Rightarrow> pc \<Rightarrow> state option" where
  "state_at w p = (case states_at p (execution w (start w)) of [] \<Rightarrow> None | s # ss \<Rightarrow> Some s)"

section \<open>Properties of the executions\<close>

subsection \<open>Calls of interest\<close>

text \<open>The two verification drivers.\<close>

fun is_driver :: "event \<Rightarrow> bool" where
  "is_driver (verification_handle_verify_single_files h p) = True"
| "is_driver (verification_handle_verify_input h p) = True"
| "is_driver e = False"

text \<open>Closing and freeing the verification handle.\<close>

fun is_release :: "event \<Rightarrow> bool" where
  "is_release verification_handle_close = True"
| "is_release verification_handle_free = True"
| "is_release e = False"

text \<open>Creating the verification handle, opening the segment files, opening the log file.\<close>

fun creates_or_opens :: "event \<Rightarrow> bool" where
  "creates_or_opens (verification_handle_initialize a b c) = True"
| "creates_or_opens (verification_handle_open_input filenames) = True"
| "creates_or_opens (log_handle_open filename) = True"
| "creates_or_opens e = False"

text \<open>The line that reports the outcome, \<^verbatim>\<open>"%s: ABORTED\n"\<close> and its two siblings.\<close>

definition verdict :: "string \<Rightarrow> event" where
  "verdict v = fprintf stdout (program @ '': '' @ v @ ''\<newline>'')"

fun is_verdict :: "event \<Rightarrow> bool" where
  "is_verdict (fprintf f x) =
     (f = stdout \<and> (x = program @ '': ABORTED\<newline>'' \<or> x = program @ '': FAILURE\<newline>''
                    \<or> x = program @ '': SUCCESS\<newline>''))"
| "is_verdict e = False"

fun is_signal_abort :: "event \<Rightarrow> bool" where
  "is_signal_abort verification_handle_signal_abort = True"
| "is_signal_abort e = False"

text \<open>
  A driver call agrees with the input format of the handle it is given: the single files
  driver for the format \<^verbatim>\<open>VERIFICATION_HANDLE_INPUT_FORMAT_FILES\<close>, the media driver
  for any other.
\<close>

fun driver_ok :: "world \<Rightarrow> event \<Rightarrow> bool" where
  "driver_ok w (verification_handle_verify_single_files h p) =
     (input_format h = VERIFICATION_HANDLE_INPUT_FORMAT_FILES w)"
| "driver_ok w (verification_handle_verify_input h p) =
     (input_format h \<noteq> VERIFICATION_HANDLE_INPUT_FORMAT_FILES w)"
| "driver_ok w e = False"

text \<open>The setter of the zero-on-error policy and the two drivers.\<close>

fun zero_or_driver :: "event \<Rightarrow> bool" where
  "zero_or_driver (verification_handle_set_zero_chunk_on_error v) = True"
| "zero_or_driver (verification_handle_verify_single_files h p) = True"
| "zero_or_driver (verification_handle_verify_input h p) = True"
| "zero_or_driver e = False"

text \<open>Creating the verification handle.\<close>

fun is_initialize :: "event \<Rightarrow> bool" where
  "is_initialize (verification_handle_initialize a b c) = True"
| "is_initialize e = False"

text \<open>The setter of the process buffer size, and the handle a driver call is given.\<close>

fun is_set_process_buffer_size :: "event \<Rightarrow> bool" where
  "is_set_process_buffer_size (verification_handle_set_process_buffer_size x) = True"
| "is_set_process_buffer_size e = False"

fun driver_handle :: "event \<Rightarrow> verification_handle option" where
  "driver_handle (verification_handle_verify_single_files h p) = Some h"
| "driver_handle (verification_handle_verify_input h p) = Some h"
| "driver_handle e = None"

text \<open>Every driver call of a list is given a handle with this process buffer size.\<close>

definition drivers_size :: "64 word \<Rightarrow> event list \<Rightarrow> bool" where
  "drivers_size v ds = list_all (\<lambda>d. map_option process_buffer_size (driver_handle d) = Some v) ds"

subsection \<open>What the options say\<close>

text \<open>
  Over the results of \<^verbatim>\<open>libsystem_getopt\<close>: the option \<^verbatim>\<open>-w\<close> or
  \<^verbatim>\<open>-p\<close> is among them; the arguments of the options \<^verbatim>\<open>-d\<close>; one of these
  arguments begins with \<^verbatim>\<open>sha1\<close>, with \<^verbatim>\<open>sha256\<close>.
\<close>

definition w_given :: "getopt_return list \<Rightarrow> bool" where
  "w_given gs = (CHR ''w'' \<in> set (map g_option gs))"

definition p_given :: "getopt_return list \<Rightarrow> bool" where
  "p_given gs = (CHR ''p'' \<in> set (map g_option gs))"

definition digest_args :: "getopt_return list \<Rightarrow> string list" where
  "digest_args gs = map g_optarg (filter (\<lambda>g. g_option g = CHR ''d'') gs)"

definition sha1_given :: "getopt_return list \<Rightarrow> bool" where
  "sha1_given gs = (\<exists>x \<in> set (digest_args gs). take 4 x = ''sha1'')"

definition sha256_given :: "getopt_return list \<Rightarrow> bool" where
  "sha256_given gs = (\<exists>x \<in> set (digest_args gs). take 6 x = ''sha256'')"

text \<open>The warnings for values that are not supported.\<close>

definition unsupported_codepage :: string where
  "unsupported_codepage = ''Unsupported header codepage defaulting to: ascii.\<newline>''"

definition unsupported_format :: string where
  "unsupported_format = ''Unsupported input format defaulting to: raw.\<newline>''"

definition unsupported_digest :: string where
  "unsupported_digest = ''Unsupported digest type.\<newline>''"

definition unsupported_size :: string where
  "unsupported_size = ''Unsupported process buffer size defaulting to: chunk size.\<newline>''"

subsection \<open>Invariants of the places\<close>

text \<open>
  The handle exists from its creation (line 317) to its release (line 573); before, the
  handler is not attached and the flag is clear. No execution dereferences a NULL handle.
\<close>

fun handle_inv :: "config \<Rightarrow> bool" where
  "handle_inv (Running p s) =
     ((19 \<le> height p \<longrightarrow>
         ewfverify_verification_handle s = None \<and> \<not> handler_attached s \<and> ewfverify_abort s = 0)
      \<and> (3 \<le> height p \<and> height p \<le> 18 \<longrightarrow> ewfverify_verification_handle s \<noteq> None)
      \<and> (height p = 2 \<longrightarrow> ewfverify_verification_handle s = None))"
| "handle_inv (Returned r s) = True"
| "handle_inv (Crashed s) = False"

text \<open>
  What has not happened yet at a place: no handle, file or log before line 317, no
  driver before line 478, no release of the handle before line 562; and at the two
  tests after \<^verbatim>\<open>verification_handle_open_input\<close> the variable \<^verbatim>\<open>result\<close> holds
  what it returned.
\<close>

fun order_inv :: "world \<Rightarrow> config \<Rightarrow> bool" where
  "order_inv w (Running p s) =
     ((19 \<le> height p \<longrightarrow> filter creates_or_opens (trace s) = [] \<and> \<not> log_handle s)
      \<and> (21 \<le> height p \<longrightarrow> \<not> glob s)
      \<and> (8 \<le> height p \<longrightarrow> filter is_driver (trace s) = [])
      \<and> (4 \<le> height p \<longrightarrow> filter is_release (trace s) = [])
      \<and> (height p = 16 \<or> height p = 15 \<longrightarrow>
            result s = ret w (verification_handle_open_input (argv_filenames s))))"
| "order_inv w (Returned r s) = True"
| "order_inv w (Crashed s) = True"

text \<open>
  No outcome is reported while the program runs; once it has returned, at most one
  outcome has been reported, and it agrees with the exit status, the flag and
  \<^verbatim>\<open>status\<close>.
\<close>

fun verdict_ok :: "world \<Rightarrow> int \<Rightarrow> state \<Rightarrow> event list \<Rightarrow> bool" where
  "verdict_ok w r s [] = True"
| "verdict_ok w r s [e] =
     ((e = verdict ''ABORTED'' \<and> r = EXIT_FAILURE \<and> ewfverify_abort s \<noteq> 0)
      \<or> (e = verdict ''FAILURE'' \<and> r = EXIT_FAILURE \<and> ewfverify_abort s = 0
          \<and> status s \<noteq> PROCESS_STATUS_COMPLETED w)
      \<or> (e = verdict ''SUCCESS'' \<and> r = EXIT_SUCCESS \<and> ewfverify_abort s = 0
          \<and> status s = PROCESS_STATUS_COMPLETED w))"
| "verdict_ok w r s (e # e' # es) = False"

fun verdict_inv :: "world \<Rightarrow> config \<Rightarrow> bool" where
  "verdict_inv w (Running p s) = (filter is_verdict (trace s) = [])"
| "verdict_inv w (Returned r s) = verdict_ok w r s (filter is_verdict (trace s))"
| "verdict_inv w (Crashed s) = True"

text \<open>
  At most one driver is called, not before line 478, and the one called agrees with the
  input format of the handle.
\<close>

fun driver_trace_ok :: "world \<Rightarrow> event list \<Rightarrow> bool" where
  "driver_trace_ok w [] = True"
| "driver_trace_ok w [d] = driver_ok w d"
| "driver_trace_ok w (d # e # es) = False"

fun drivers_inv :: "world \<Rightarrow> config \<Rightarrow> bool" where
  "drivers_inv w (Running p s) =
     ((8 \<le> height p \<longrightarrow> filter is_driver (trace s) = [])
      \<and> driver_trace_ok w (filter is_driver (trace s)))"
| "drivers_inv w (Returned r s) = driver_trace_ok w (filter is_driver (trace s))"
| "drivers_inv w (Crashed s) = True"

text \<open>From a place after line 478 on, the driver calls of the trace stay what they are.\<close>

fun drivers_fixed :: "event list \<Rightarrow> config \<Rightarrow> bool" where
  "drivers_fixed ds (Running p s) = (height p \<le> 7 \<and> filter is_driver (trace s) = ds)"
| "drivers_fixed ds (Returned r s) = (filter is_driver (trace s) = ds)"
| "drivers_fixed ds (Crashed s) = True"




text \<open>
  The policy variable is 0 or 1, and 1 exactly when \<^verbatim>\<open>-w\<close> is among the options
  seen so far; the setter is called once, with the variable, before any driver.
\<close>

fun zero_trace_ok :: "8 word \<Rightarrow> event list \<Rightarrow> bool" where
  "zero_trace_ok v [] = True"
| "zero_trace_ok v [e] = (e = verification_handle_set_zero_chunk_on_error v)"
| "zero_trace_ok v [e, d] = (e = verification_handle_set_zero_chunk_on_error v \<and> is_driver d)"
| "zero_trace_ok v (e # d # d' # ds) = False"

fun zero_inv :: "world \<Rightarrow> config \<Rightarrow> bool" where
  "zero_inv w (Running p s) =
     ((zero_chunk_on_error s = 0 \<or> zero_chunk_on_error s = 1)
      \<and> w_given (getopt_returns w) = (zero_chunk_on_error s = 1 \<or> w_given (pending s))
      \<and> (2 \<le> height p \<and> height p < 24 \<longrightarrow> pending s = [])
      \<and> (11 \<le> height p \<longrightarrow> filter zero_or_driver (trace s) = [])
      \<and> (8 \<le> height p \<and> height p \<le> 10 \<longrightarrow>
            filter zero_or_driver (trace s) =
              [verification_handle_set_zero_chunk_on_error (zero_chunk_on_error s)])
      \<and> zero_trace_ok (zero_chunk_on_error s) (filter zero_or_driver (trace s))
      \<and> (filter zero_or_driver (trace s) \<noteq> [] \<longrightarrow> pending s = []))"
| "zero_inv w (Returned r s) =
     ((zero_chunk_on_error s = 0 \<or> zero_chunk_on_error s = 1)
      \<and> w_given (getopt_returns w) = (zero_chunk_on_error s = 1 \<or> w_given (pending s))
      \<and> zero_trace_ok (zero_chunk_on_error s) (filter zero_or_driver (trace s))
      \<and> (filter zero_or_driver (trace s) \<noteq> [] \<longrightarrow> pending s = []))"
| "zero_inv w (Crashed s) = True"

text \<open>
  \<^verbatim>\<open>calculate_md5\<close> stays 1; the other two flags are 0 or 1, and 1 exactly when an
  argument of \<^verbatim>\<open>-d\<close> seen so far begins with the name; the handle is created at
  most once, with the three flags.
\<close>

fun initialize_ok :: "8 word \<Rightarrow> 8 word \<Rightarrow> 8 word \<Rightarrow> event list \<Rightarrow> bool" where
  "initialize_ok a b c [] = True"
| "initialize_ok a b c [e] = (e = verification_handle_initialize a b c)"
| "initialize_ok a b c (e # e' # es) = False"

fun digest_inv :: "world \<Rightarrow> config \<Rightarrow> bool" where
  "digest_inv w (Running p s) =
     (calculate_md5 s = 1
      \<and> (calculate_sha1 s = 0 \<or> calculate_sha1 s = 1)
      \<and> (calculate_sha256 s = 0 \<or> calculate_sha256 s = 1)
      \<and> sha1_given (getopt_returns w) = (calculate_sha1 s = 1 \<or> sha1_given (pending s))
      \<and> sha256_given (getopt_returns w) = (calculate_sha256 s = 1 \<or> sha256_given (pending s))
      \<and> (2 \<le> height p \<and> height p < 24 \<longrightarrow> pending s = [])
      \<and> (19 \<le> height p \<longrightarrow> filter is_initialize (trace s) = [])
      \<and> initialize_ok 1 (calculate_sha1 s) (calculate_sha256 s) (filter is_initialize (trace s))
      \<and> (filter is_initialize (trace s) \<noteq> [] \<longrightarrow> pending s = []))"
| "digest_inv w (Returned r s) =
     (calculate_md5 s = 1
      \<and> (calculate_sha1 s = 0 \<or> calculate_sha1 s = 1)
      \<and> (calculate_sha256 s = 0 \<or> calculate_sha256 s = 1)
      \<and> sha1_given (getopt_returns w) = (calculate_sha1 s = 1 \<or> sha1_given (pending s))
      \<and> sha256_given (getopt_returns w) = (calculate_sha256 s = 1 \<or> sha256_given (pending s))
      \<and> initialize_ok 1 (calculate_sha1 s) (calculate_sha256 s) (filter is_initialize (trace s))
      \<and> (filter is_initialize (trace s) \<noteq> [] \<longrightarrow> pending s = []))"
| "digest_inv w (Crashed s) = True"

text \<open>
  \<^verbatim>\<open>option_process_buffer_size\<close> is set exactly when \<^verbatim>\<open>-p\<close> is among the
  options seen so far; while it is NULL the setter has not been called and the handle and
  the driver calls have the process buffer size the handle was created with.
\<close>

definition size_untouched :: "world \<Rightarrow> state \<Rightarrow> bool" where
  "size_untouched w s =
     (p_given (getopt_returns w) = (option_process_buffer_size s \<noteq> None \<or> p_given (pending s))
      \<and> (option_process_buffer_size s = None \<longrightarrow>
            filter is_set_process_buffer_size (trace s) = []
            \<and> (case ewfverify_verification_handle s of
                  None \<Rightarrow> True
                | Some h \<Rightarrow> process_buffer_size h = process_buffer_size (new_handle w))
            \<and> drivers_size (process_buffer_size (new_handle w)) (filter is_driver (trace s))))"

fun size_inv :: "world \<Rightarrow> config \<Rightarrow> bool" where
  "size_inv w (Running p s) = size_untouched w s"
| "size_inv w (Returned r s) = size_untouched w s"
| "size_inv w (Crashed s) = True"

text \<open>
  Once line 446 has reset the process buffer size, it is 0 up to the driver call, and in
  the driver call.
\<close>

fun size_reset :: "config \<Rightarrow> bool" where
  "size_reset (Running p s) =
     (height p \<le> 9
      \<and> (8 \<le> height p \<longrightarrow>
            filter is_driver (trace s) = []
            \<and> map_option process_buffer_size (ewfverify_verification_handle s) = Some 0)
      \<and> drivers_size 0 (filter is_driver (trace s)))"
| "size_reset (Returned r s) = drivers_size 0 (filter is_driver (trace s))"
| "size_reset (Crashed s) = True"

subsection \<open>Worlds for concrete executions\<close>

text \<open>
  One image file, no option, every call succeeds (0 for the calls whose success is 0, 1
  for the others), no signal.
\<close>

definition plain_world :: world where
  "plain_world =
     \<lparr>argv = [''ewfverify'', ''image.E01''],
      getopt_returns = [],
      optind_final = 1,
      ret = (\<lambda>e. if e = log_handle_close \<or> e = verification_handle_close \<or> e = libsystem_file_io_close 0
                  then 0 else 1),
      reports_error = (\<lambda>e. False),
      glob_result = [],
      new_handle = \<lparr>input_format = 114, process_buffer_size = 0\<rparr>,
      input_format_set = 102,
      process_buffer_size_set = 0,
      signal_at = (\<lambda>p. False),
      LIBSYSTEM_HAVE_GLOB = True,
      PROCESS_STATUS_COMPLETED = 99,
      PROCESS_STATUS_FAILED = 102,
      VERIFICATION_HANDLE_INPUT_FORMAT_FILES = 102,
      SSIZE_MAX = 0x7FFFFFFFFFFFFFFF\<rparr>"

text \<open>\<^verbatim>\<open>ewfverify\<close> with no argument.\<close>

definition no_files_world :: world where
  "no_files_world = plain_world\<lparr>argv := [''ewfverify'']\<rparr>"

text \<open>\<^verbatim>\<open>verification_handle_open_input\<close> fails.\<close>

definition open_fails_world :: world where
  "open_fails_world =
     plain_world\<lparr>ret := (\<lambda>e. if e = verification_handle_open_input [''image.E01''] then - 1
                              else ret plain_world e),
                 reports_error := (\<lambda>e. e = verification_handle_open_input [''image.E01''])\<rparr>"

text \<open>A signal arrives while the segment files are opened; closing the handle then fails.\<close>

definition abort_at_open_world :: world where
  "abort_at_open_world =
     plain_world\<lparr>signal_at := (\<lambda>p. p = L343_open_input),
                 ret := (\<lambda>e. if e = verification_handle_close then - 1 else ret plain_world e)\<rparr>"



text \<open>A signal arrives while the segment files are opened, and every call succeeds.\<close>

definition abort_at_open_clean_world :: world where
  "abort_at_open_clean_world = plain_world\<lparr>signal_at := (\<lambda>p. p = L343_open_input)\<rparr>"

text \<open>\<^verbatim>\<open>ewfverify -w image.E01\<close>.\<close>

definition w_option_world :: world where
  "w_option_world =
     plain_world\<lparr>argv := [''ewfverify'', ''-w'', ''image.E01''],
                 getopt_returns := [\<lparr>g_option = CHR ''w'', g_optarg = [], g_optind = 2\<rparr>],
                 optind_final := 2\<rparr>"

text \<open>\<^verbatim>\<open>ewfverify -d sha1sum image.E01\<close> and \<^verbatim>\<open>ewfverify -d sha256 image.E01\<close>.\<close>

definition sha1sum_world :: world where
  "sha1sum_world =
     plain_world\<lparr>argv := [''ewfverify'', ''-d'', ''sha1sum'', ''image.E01''],
                 getopt_returns := [\<lparr>g_option = CHR ''d'', g_optarg = ''sha1sum'', g_optind = 3\<rparr>],
                 optind_final := 3\<rparr>"

definition sha256_world :: world where
  "sha256_world =
     plain_world\<lparr>argv := [''ewfverify'', ''-d'', ''sha256'', ''image.E01''],
                 getopt_returns := [\<lparr>g_option = CHR ''d'', g_optarg = ''sha256'', g_optind = 3\<rparr>],
                 optind_final := 3\<rparr>"

text \<open>
  \<^verbatim>\<open>ewfverify -p junk image.E01\<close>: the setter reports an unsupported value and
  leaves 5 in the handle.
\<close>

definition p_option_world :: world where
  "p_option_world =
     plain_world\<lparr>argv := [''ewfverify'', ''-p'', ''junk'', ''image.E01''],
                 getopt_returns := [\<lparr>g_option = CHR ''p'', g_optarg = ''junk'', g_optind = 3\<rparr>],
                 optind_final := 3,
                 ret := (\<lambda>e. if e = verification_handle_set_process_buffer_size ''junk'' then 0
                              else ret plain_world e),
                 process_buffer_size_set := 5\<rparr>"

text \<open>\<^verbatim>\<open>ewfverify -f files image.L01\<close>: the setter leaves the format of single files.\<close>

definition files_world :: world where
  "files_world =
     plain_world\<lparr>argv := [''ewfverify'', ''-f'', ''files'', ''image.L01''],
                 getopt_returns := [\<lparr>g_option = CHR ''f'', g_optarg = ''files'', g_optind = 3\<rparr>],
                 optind_final := 3,
                 input_format_set := 102\<rparr>"

text \<open>
  An unsupported digest type, header codepage and input format: the two setters
  return 0.
\<close>

definition md4_world :: world where
  "md4_world =
     plain_world\<lparr>argv := [''ewfverify'', ''-d'', ''md4'', ''image.E01''],
                 getopt_returns := [\<lparr>g_option = CHR ''d'', g_optarg = ''md4'', g_optind = 3\<rparr>],
                 optind_final := 3\<rparr>"

definition codepage_world :: world where
  "codepage_world =
     plain_world\<lparr>argv := [''ewfverify'', ''-A'', ''klingon'', ''image.E01''],
                 getopt_returns := [\<lparr>g_option = CHR ''A'', g_optarg = ''klingon'', g_optind = 3\<rparr>],
                 optind_final := 3,
                 ret := (\<lambda>e. if e = verification_handle_set_header_codepage ''klingon'' then 0
                              else ret plain_world e)\<rparr>"

definition format_world :: world where
  "format_world =
     plain_world\<lparr>argv := [''ewfverify'', ''-f'', ''zip'', ''image.E01''],
                 getopt_returns := [\<lparr>g_option = CHR ''f'', g_optarg = ''zip'', g_optind = 3\<rparr>],
                 optind_final := 3,
                 ret := (\<lambda>e. if e = verification_handle_set_format ''zip'' then 0
                              else ret plain_world e),
                 input_format_set := 114\<rparr>"

text \<open>The same two options when the setter fails.\<close>

definition codepage_error_world :: world where
  "codepage_error_world =
     codepage_world\<lparr>ret := (\<lambda>e. if e = verification_handle_set_header_codepage ''klingon'' then - 1
                                 else ret plain_world e)\<rparr>"

definition format_error_world :: world where
  "format_error_world =
     format_world\<lparr>ret := (\<lambda>e. if e = verification_handle_set_format ''zip'' then - 1
                               else ret plain_world e)\<rparr>"


section \<open>The verification driver of the specification\<close>

text \<open>
  The driver behind \<^verbatim>\<open>verification_handle_verify_input\<close> is not part of the
  sources. This section models it from sections 3, 4.2, 4.3 and 4.4 of the
  specification.
\<close>

text \<open>
  Modelled from the spec: the result of the Chunk Reader (section 4.2) for one chunk. The
  reader and the segment table are missing; a chunk is what \<^verbatim>\<open>read_chunk\<close> gives
  for it: the plaintext bytes, the nominal plaintext size of the chunk, and how the read
  failed, if it did (checksum mismatch, decompression failure, or a truncated chunk).
\<close>

type_synonym byte = "8 word"

datatype failure = ChecksumMismatch | DecompressionFailure | TruncatedChunk

record chunk =
  plaintext :: "byte list"
  nominal_size :: nat
  failure :: "failure option"

text \<open>
  Modelled from the spec: the digest primitives (section 1: black-box incremental
  hashers, missing from the sources) and the Digest Pipeline (section 4.3): one context
  per active algorithm, \<^verbatim>\<open>update\<close> feeds the same bytes to every context,
  \<^verbatim>\<open>finalize\<close> gives one digest per algorithm.
\<close>

record ('c, 'd) hasher =
  h_init :: 'c
  h_update :: "'c \<Rightarrow> byte list \<Rightarrow> 'c"
  h_finalize :: "'c \<Rightarrow> 'd"

type_synonym ('c, 'd) pipeline = "(('c, 'd) hasher \<times> 'c) list"

text \<open>
  Modelled from the spec: the Digest Pipeline of a new session (section 4.3, missing from
  the sources), a fresh context for every requested algorithm.
\<close>

definition pipeline_start :: "('c, 'd) hasher list \<Rightarrow> ('c, 'd) pipeline" where
  "pipeline_start hs = map (\<lambda>h. (h, h_init h)) hs"

text \<open>
  Modelled from the spec: \<^verbatim>\<open>update(chunk_plaintext)\<close> of the Digest Pipeline (section
  4.3, missing from the sources), the same bytes to every active context.
\<close>

definition pipeline_update :: "('c, 'd) pipeline \<Rightarrow> byte list \<Rightarrow> ('c, 'd) pipeline" where
  "pipeline_update p bytes = map (\<lambda>(h, c). (h, h_update h c bytes)) p"

text \<open>
  Modelled from the spec: \<^verbatim>\<open>finalize()\<close> of the Digest Pipeline (section 4.3, missing
  from the sources), one digest per active algorithm.
\<close>

definition pipeline_finalize :: "('c, 'd) pipeline \<Rightarrow> 'd list" where
  "pipeline_finalize p = map (\<lambda>(h, c). h_finalize h c) p"

text \<open>
  Modelled from the spec: the states of the Verification Driver (section 4.4; the state
  \<^verbatim>\<open>Running\<close> is \<open>In_progress\<close> here), an error record (section 3: chunk index,
  byte offset, reason) and the outcome of a run: the final state, the error records, and
  the digests, which are finalized in the state \<^verbatim>\<open>Completed\<close> only.
\<close>

datatype driver_state = Idle | In_progress | Completed | Aborted | Failed

record error_record =
  chunk_index :: nat
  byte_offset :: nat
  reason :: failure

record 'd outcome =
  final_state :: driver_state
  error_records :: "error_record list"
  digests :: "'d list option"

text \<open>
  Modelled from the spec: the loop of the Verification Driver (section 4.4), which is
  missing from the sources. The chunks are visited in increasing index order. In each
  iteration the cancellation flag is checked first (\<^verbatim>\<open>Aborted\<close>, digests
  discarded); a truncated chunk ends the run as \<^verbatim>\<open>Failed\<close>; a checksum or
  decompression failure is recorded with the index and the offset of the chunk, and the
  pipeline is fed a zero-filled buffer of the nominal plaintext size when the
  zero-on-error policy is enabled (the bytes read when it is not, which the
  specification leaves open); a good chunk is fed as it is. At the end the digests are
  finalized. \<open>cancelled i\<close> is the flag as the iteration for chunk \<open>i\<close> sees it.
\<close>

fun verify_chunks ::
  "bool \<Rightarrow> (nat \<Rightarrow> bool) \<Rightarrow> nat \<Rightarrow> nat \<Rightarrow> chunk list \<Rightarrow> ('c, 'd) pipeline \<Rightarrow> error_record list
     \<Rightarrow> 'd outcome" where
  "verify_chunks zero cancelled i offset [] p errs =
     \<lparr>final_state = Completed, error_records = errs, digests = Some (pipeline_finalize p)\<rparr>"
| "verify_chunks zero cancelled i offset (c # cs) p errs =
     (if cancelled i
      then \<lparr>final_state = Aborted, error_records = errs, digests = None\<rparr>
      else (case failure c of
              None \<Rightarrow>
                verify_chunks zero cancelled (Suc i) (offset + nominal_size c) cs
                  (pipeline_update p (plaintext c)) errs
            | Some TruncatedChunk \<Rightarrow>
                \<lparr>final_state = Failed, error_records = errs, digests = None\<rparr>
            | Some f \<Rightarrow>
                verify_chunks zero cancelled (Suc i) (offset + nominal_size c) cs
                  (pipeline_update p (if zero then replicate (nominal_size c) 0 else plaintext c))
                  (errs @ [\<lparr>chunk_index = i, byte_offset = offset, reason = f\<rparr>])))"

text \<open>
  Modelled from the spec: \<^verbatim>\<open>run\<close> in Media mode (section 6, missing from the
  sources): the loop from chunk 0 at offset 0, with fresh contexts and no error record.
\<close>

definition run_media ::
  "bool \<Rightarrow> (nat \<Rightarrow> bool) \<Rightarrow> ('c, 'd) hasher list \<Rightarrow> chunk list \<Rightarrow> 'd outcome" where
  "run_media zero cancelled hs cs = verify_chunks zero cancelled 0 0 cs (pipeline_start hs) []"

text \<open>
  Modelled from the spec: the independent reference hasher of section 8 (missing from the
  sources), fed the pieces of a stream one after the other.
\<close>

definition reference_digests :: "('c, 'd) hasher list \<Rightarrow> byte list list \<Rightarrow> 'd list" where
  "reference_digests hs stream = map (\<lambda>h. h_finalize h (foldl (h_update h) (h_init h) stream)) hs"

text \<open>
  Modelled from the spec: an incremental hasher (section 1, missing from the sources) is
  \<open>streaming\<close> when feeding pieces one after the other is feeding their
  concatenation.
\<close>

definition streaming :: "('c, 'd) hasher \<Rightarrow> bool" where
  "streaming h =
     ((\<forall>c. h_update h c [] = c) \<and> (\<forall>c a b. h_update h (h_update h c a) b = h_update h c (a @ b)))"

text \<open>
  Modelled from the spec: the stream of section 8 in which the bytes of chunk \<open>k\<close> are
  replaced by zeros of the same length (the evidence set itself is missing from the
  sources).
\<close>

definition zero_filled :: "nat \<Rightarrow> chunk list \<Rightarrow> byte list list" where
  "zero_filled k cs = (map plaintext cs)[k := replicate (length (plaintext (cs ! k))) 0]"

text \<open>
  Modelled from the spec: the evidence sets of the property of section 8. Exactly one
  chunk, the one with index \<open>k\<close>, is corrupted, by a checksum mismatch; its plaintext
  has the nominal size; every other chunk reads well.
\<close>

definition one_corrupted :: "nat \<Rightarrow> chunk list \<Rightarrow> bool" where
  "one_corrupted k cs =
     (k < length cs \<and> failure (cs ! k) = Some ChecksumMismatch
      \<and> length (plaintext (cs ! k)) = nominal_size (cs ! k)
      \<and> (\<forall>i < length cs. i \<noteq> k \<longrightarrow> failure (cs ! i) = None))"

text \<open>What the driver feeds for a chunk, and the indices of the chunks that failed.\<close>

definition fed :: "bool \<Rightarrow> chunk \<Rightarrow> byte list" where
  "fed zero c = (if failure c \<noteq> None \<and> zero then replicate (nominal_size c) 0 else plaintext c)"

fun faults :: "nat \<Rightarrow> chunk list \<Rightarrow> nat list" where
  "faults i [] = []"
| "faults i (c # cs) = (if failure c = None then faults (Suc i) cs else i # faults (Suc i) cs)"

text \<open>
  An evidence set of three chunks, the second corrupted, and a hasher that adds the
  bytes up.
\<close>

definition three_chunks :: "chunk list" where
  "three_chunks =
     [\<lparr>plaintext = [1, 2], nominal_size = 2, failure = None\<rparr>,
      \<lparr>plaintext = [9, 9], nominal_size = 2, failure = Some ChecksumMismatch\<rparr>,
      \<lparr>plaintext = [3], nominal_size = 1, failure = None\<rparr>]"

definition byte_sum :: "(byte, byte) hasher" where
  "byte_sum = \<lparr>h_init = 0, h_update = (\<lambda>c bytes. c + sum_list bytes), h_finalize = (\<lambda>c. c)\<rparr>"

section \<open>Proofs\<close>

subsection \<open>Executions\<close>

lemma execution_not_Nil: "execution w c \<noteq> []"
  by (cases c) auto

lemma run_Running: "run w (Running p s) = run w (step w p s)"
  by (simp add: run_def execution_not_Nil)

lemma run_Returned: "run w (Returned r s) = Returned r s"
  by (simp add: run_def)

lemma run_Crashed: "run w (Crashed s) = Crashed s"
  by (simp add: run_def)

lemma run_not_Running: "run w c \<noteq> Running p s"
  by (induction w c rule: execution.induct) (auto simp: run_Running run_Returned run_Crashed)

lemma execution_run: "c' \<in> set (execution w c) \<Longrightarrow> run w c' = run w c"
  by (induction w c rule: execution.induct) (auto simp: run_Running)

lemma run_in_execution: "run w c \<in> set (execution w c)"
  by (induction w c rule: execution.induct) (auto simp: run_Running run_Returned run_Crashed)

lemma main_in_execution: "main w \<in> set (execution w (start w))"
  by (simp add: main_def run_in_execution)

lemma main_from: "Running p s \<in> set (execution w (start w)) \<Longrightarrow> main w = run w (step w p s)"
  using execution_run [of "Running p s" w "start w"] by (simp add: main_def run_Running)

lemma execution_invariant:
  "I c \<Longrightarrow> (\<And>p s. I (Running p s) \<Longrightarrow> I (step w p s)) \<Longrightarrow> c' \<in> set (execution w c) \<Longrightarrow> I c'"
proof (induction w c rule: execution.induct)
  case (1 w p s)
  from "1.prems"(1) have "I (step w p s)"
    by (rule "1.prems"(2))
  with 1 show ?case
    by auto
qed auto

text \<open>An invariant is kept by a step when the statement and the handler keep it.\<close>

lemma step_invariant:
  assumes "I (Running p s)"
    and "I (Running p s) \<Longrightarrow> I (exec w p s)"
    and "\<And>p' s'. I (Running p' s') \<Longrightarrow> I (Running p' (deliver w p s'))"
  shows "I (step w p s)"
proof (cases "exec w p s")
  case (Running p' s')
  with assms(1,2) have "I (Running p' s')"
    by simp
  then have "I (Running p' (deliver w p s'))"
    by (rule assms(3))
  with Running show ?thesis
    by (simp add: step_def)
next
  case (Returned r s')
  with assms(1,2) show ?thesis
    by (simp add: step_def)
next
  case (Crashed s')
  with assms(1,2) show ?thesis
    by (simp add: step_def)
qed

lemma reachable_invariant:
  assumes "c \<in> set (execution w (start w))"
    and "I (start w)"
    and "\<And>p s. I (Running p s) \<Longrightarrow> I (exec w p s)"
    and "\<And>p p' s. I (Running p' s) \<Longrightarrow> I (Running p' (deliver w p s))"
  shows "I c"
  using assms(2) _ assms(1)
proof (rule execution_invariant)
  fix p s
  assume "I (Running p s)"
  then show "I (step w p s)"
    by (rule step_invariant) (auto intro: assms(3,4))
qed

lemma states_at_set: "s \<in> set (states_at p cs) \<Longrightarrow> Running p s \<in> set cs"
  by (induction p cs rule: states_at.induct) (auto split: if_splits)

lemma state_at_execution: "state_at w p = Some s \<Longrightarrow> Running p s \<in> set (execution w (start w))"
  by (auto simp: state_at_def split: list.splits intro: states_at_set)

subsection \<open>The signal handler changes the flag and the trace only\<close>

lemmas stmt_defs = Let_def emit_def extern_def print_and_free_error_def usage_fprint_def
  getopt_case_def on_error_def

lemma deliver_detached: "\<not> handler_attached s \<Longrightarrow> deliver w p s = s"
  by (simp add: deliver_def)

lemma deliver_fields:
  "ewfverify_verification_handle (deliver w p s) = ewfverify_verification_handle s"
  "handler_attached (deliver w p s) = handler_attached s"
  "pending (deliver w p s) = pending s"
  "optind (deliver w p s) = optind s"
  "error (deliver w p s) = error s"
  "argv_filenames (deliver w p s) = argv_filenames s"
  "glob (deliver w p s) = glob s"
  "log_filename (deliver w p s) = log_filename s"
  "option_format (deliver w p s) = option_format s"
  "option_header_codepage (deliver w p s) = option_header_codepage s"
  "option_process_buffer_size (deliver w p s) = option_process_buffer_size s"
  "log_handle (deliver w p s) = log_handle s"
  "calculate_md5 (deliver w p s) = calculate_md5 s"
  "calculate_sha1 (deliver w p s) = calculate_sha1 s"
  "calculate_sha256 (deliver w p s) = calculate_sha256 s"
  "print_status_information (deliver w p s) = print_status_information s"
  "zero_chunk_on_error (deliver w p s) = zero_chunk_on_error s"
  "verbose (deliver w p s) = verbose s"
  "result (deliver w p s) = result s"
  "status (deliver w p s) = status s"
  by (simp_all add: deliver_def ewfverify_signal_handler_def emit_def Let_def)

lemma deliver_abort: "ewfverify_abort s \<noteq> 0 \<Longrightarrow> ewfverify_abort (deliver w p s) \<noteq> 0"
  by (simp add: deliver_def ewfverify_signal_handler_def emit_def Let_def)

text \<open>A projection of the trace that drops the calls of the handler is not changed by it.\<close>

lemma deliver_filter:
  assumes "\<not> P verification_handle_signal_abort" "\<not> P liberror_error_free"
    and "\<not> P libsystem_notify_print_error_backtrace"
    and "\<And>x. \<not> P (libsystem_notify_printf x)" "\<And>n. \<not> P (libsystem_file_io_close n)"
  shows "filter P (trace (deliver w p s)) = filter P (trace s)"
  using assms by (simp add: deliver_def ewfverify_signal_handler_def emit_def Let_def)

lemma filter_fprintf:
  "(\<And>x. \<not> P (fprintf f x)) \<Longrightarrow> filter P (map (fprintf f) xs) = []"
  by (induction xs) auto

lemma deliver_is_driver: "filter is_driver (trace (deliver w p s)) = filter is_driver (trace s)"
  by (rule deliver_filter) simp_all

lemma deliver_is_release: "filter is_release (trace (deliver w p s)) = filter is_release (trace s)"
  by (rule deliver_filter) simp_all

lemma deliver_creates_or_opens:
  "filter creates_or_opens (trace (deliver w p s)) = filter creates_or_opens (trace s)"
  by (rule deliver_filter) simp_all

lemma deliver_is_verdict: "filter is_verdict (trace (deliver w p s)) = filter is_verdict (trace s)"
  by (rule deliver_filter) simp_all

lemma deliver_zero_or_driver:
  "filter zero_or_driver (trace (deliver w p s)) = filter zero_or_driver (trace s)"
  by (rule deliver_filter) simp_all

lemma deliver_is_initialize:
  "filter is_initialize (trace (deliver w p s)) = filter is_initialize (trace s)"
  by (rule deliver_filter) simp_all

lemma deliver_is_set_size:
  "filter is_set_process_buffer_size (trace (deliver w p s)) = filter is_set_process_buffer_size (trace s)"
  by (rule deliver_filter) simp_all

lemma deliver_trace: "\<exists>es. trace (deliver w p s) = trace s @ es"
  by (simp add: deliver_def ewfverify_signal_handler_def emit_def Let_def)

subsection \<open>The program returns\<close>

lemma handle_inv_exec: "handle_inv (Running p s) \<Longrightarrow> handle_inv (exec w p s)"
  by (cases p) (auto simp: stmt_defs split: list.splits option.splits)

lemma handle_inv_deliver: "handle_inv (Running p' s) \<Longrightarrow> handle_inv (Running p' (deliver w p s))"
  by (cases "handler_attached s") (auto simp: deliver_fields deliver_detached)

lemma handle_inv_reachable: "c \<in> set (execution w (start w)) \<Longrightarrow> handle_inv c"
  by (erule reachable_invariant)
     (simp add: start_def initial_state_def, erule handle_inv_exec, erule handle_inv_deliver)

lemma main_returns: "\<exists>r s. main w = Returned r s"
proof (cases "main w")
  case (Running p s)
  then show ?thesis
    by (simp add: main_def run_not_Running)
next
  case (Crashed s)
  then show ?thesis
    using handle_inv_reachable [OF main_in_execution, of w] by simp
qed auto

lemma order_inv_exec: "order_inv w (Running p s) \<Longrightarrow> order_inv w (exec w p s)"
  by (cases p) (simp_all add: stmt_defs filter_fprintf split: list.splits option.splits)

lemma order_inv_deliver: "order_inv w (Running p' s) \<Longrightarrow> order_inv w (Running p' (deliver w p s))"
  by (simp add: deliver_fields deliver_is_driver deliver_is_release deliver_creates_or_opens)

lemma order_inv_reachable: "c \<in> set (execution w (start w)) \<Longrightarrow> order_inv w c"
  by (erule reachable_invariant)
     (simp add: start_def initial_state_def, erule order_inv_exec, erule order_inv_deliver)

subsection \<open>The reported outcome, the drivers and the status\<close>

lemma usage_no_verdict: "filter is_verdict (map (fprintf stdout) usage_text) = []"
  by (simp add: usage_text_def program_def)

lemma verdict_inv_exec: "verdict_inv w (Running p s) \<Longrightarrow> verdict_inv w (exec w p s)"
  by (cases p)
     (simp_all add: stmt_defs usage_no_verdict verdict_def
        split: list.splits option.splits)

lemma verdict_inv_deliver:
  "verdict_inv w (Running p' s) \<Longrightarrow> verdict_inv w (Running p' (deliver w p s))"
  by (simp add: deliver_is_verdict)

lemma verdict_inv_reachable: "c \<in> set (execution w (start w)) \<Longrightarrow> verdict_inv w c"
  by (erule reachable_invariant)
     (simp add: start_def initial_state_def, erule verdict_inv_exec, erule verdict_inv_deliver)

lemma drivers_inv_exec: "drivers_inv w (Running p s) \<Longrightarrow> drivers_inv w (exec w p s)"
  by (cases p) (simp_all add: stmt_defs filter_fprintf split: list.splits option.splits)

lemma drivers_inv_deliver:
  "drivers_inv w (Running p' s) \<Longrightarrow> drivers_inv w (Running p' (deliver w p s))"
  by (simp add: deliver_is_driver)

lemma drivers_inv_reachable: "c \<in> set (execution w (start w)) \<Longrightarrow> drivers_inv w c"
  by (erule reachable_invariant)
     (simp add: start_def initial_state_def, erule drivers_inv_exec, erule drivers_inv_deliver)

lemma drivers_fixed_exec: "drivers_fixed ds (Running p s) \<Longrightarrow> drivers_fixed ds (exec w p s)"
  by (cases p) (simp_all add: stmt_defs filter_fprintf split: list.splits option.splits)

lemma drivers_fixed_deliver:
  "drivers_fixed ds (Running p' s) \<Longrightarrow> drivers_fixed ds (Running p' (deliver w p s))"
  by (simp add: deliver_is_driver)

lemma drivers_fixed_run: "drivers_fixed ds c \<Longrightarrow> drivers_fixed ds (run w c)"
proof -
  assume "drivers_fixed ds c"
  then show ?thesis
  proof (rule execution_invariant)
    fix p s
    assume "drivers_fixed ds (Running p s)"
    then show "drivers_fixed ds (step w p s)"
      by (rule step_invariant) (erule drivers_fixed_exec, erule drivers_fixed_deliver)
  next
    show "run w c \<in> set (execution w c)"
      by (rule run_in_execution)
  qed
qed





lemma driver_trace_ok_cases:
  "driver_trace_ok w ds \<Longrightarrow> ds = [] \<or> (\<exists>d. ds = [d] \<and> driver_ok w d)"
  by (cases "(w, ds)" rule: driver_trace_ok.cases) auto


lemma verdict_ok_cases:
  "verdict_ok w r s vs \<Longrightarrow>
     vs = []
     \<or> (vs = [verdict ''ABORTED''] \<and> r = EXIT_FAILURE \<and> ewfverify_abort s \<noteq> 0)
     \<or> (vs = [verdict ''FAILURE''] \<and> r = EXIT_FAILURE \<and> ewfverify_abort s = 0
         \<and> status s \<noteq> PROCESS_STATUS_COMPLETED w)
     \<or> (vs = [verdict ''SUCCESS''] \<and> r = EXIT_SUCCESS \<and> ewfverify_abort s = 0
         \<and> status s = PROCESS_STATUS_COMPLETED w)"
  by (cases "(w, r, s, vs)" rule: verdict_ok.cases) auto

subsection \<open>The end of an execution whose flag is set\<close>

lemma from_on_error:
  "\<exists>s'. run w (Running L608_on_error s) = Returned EXIT_FAILURE s'
        \<and> filter is_driver (trace s') = filter is_driver (trace s)
        \<and> filter is_verdict (trace s') = filter is_verdict (trace s)"
  by (simp add: run_Running run_Returned step_def stmt_defs)

lemma aborted_from_L583:
  "ewfverify_abort s \<noteq> 0 \<Longrightarrow>
   \<exists>s'. run w (Running L583_report s) = Returned EXIT_FAILURE s'
        \<and> filter is_driver (trace s') = filter is_driver (trace s)
        \<and> filter is_verdict (trace s') = filter is_verdict (trace s) @ [verdict ''ABORTED'']"
  by (simp add: run_Running run_Returned step_def stmt_defs verdict_def)

lemma aborted_from_L573:
  assumes "ewfverify_abort s \<noteq> 0"
  shows "\<exists>s'. run w (Running L573_handle_free s) = Returned EXIT_FAILURE s'
        \<and> filter is_driver (trace s') = filter is_driver (trace s)
        \<and> filter is_verdict (trace s') = filter is_verdict (trace s)
             @ (if ret w verification_handle_free = 1 then [verdict ''ABORTED''] else [])"
proof (cases "ret w verification_handle_free = 1")
  case True
  let ?s = "deliver w L573_handle_free
              ((extern w verification_handle_free s)\<lparr>ewfverify_verification_handle := None\<rparr>)"
  from assms have "ewfverify_abort ?s \<noteq> 0"
    by (simp add: deliver_abort extern_def)
  from aborted_from_L583 [OF this, of w] True show ?thesis
    by (simp add: run_Running step_def Let_def deliver_is_driver deliver_is_verdict extern_def)
next
  case False
  let ?s = "deliver w L573_handle_free
              (emit (fprintf stderr ''Unable to free verification handle.\<newline>'')
                 (extern w verification_handle_free s))"
  from from_on_error [of w ?s] False show ?thesis
    by (simp add: run_Running step_def Let_def deliver_is_driver deliver_is_verdict extern_def emit_def)
qed

lemma aborted_from_L562:
  assumes "ewfverify_abort s \<noteq> 0"
  shows "\<exists>s'. run w (Running L562_handle_close s) = Returned EXIT_FAILURE s'
        \<and> filter is_driver (trace s') = filter is_driver (trace s)
        \<and> filter is_verdict (trace s') = filter is_verdict (trace s)
             @ (if ret w verification_handle_close = 0 \<and> ret w verification_handle_free = 1
                then [verdict ''ABORTED''] else [])"
proof (cases "ret w verification_handle_close = 0")
  case True
  let ?s = "deliver w L562_handle_close (extern w verification_handle_close s)"
  from assms have "ewfverify_abort ?s \<noteq> 0"
    by (simp add: deliver_abort extern_def)
  from aborted_from_L573 [OF this, of w] True show ?thesis
    by (simp add: run_Running step_def Let_def deliver_is_driver deliver_is_verdict extern_def)
next
  case False
  let ?s = "deliver w L562_handle_close
              (emit (fprintf stderr ''Unable to close EWF file(s).\<newline>'')
                 (extern w verification_handle_close s))"
  from from_on_error [of w ?s] False show ?thesis
    by (simp add: run_Running step_def Let_def deliver_is_driver deliver_is_verdict extern_def emit_def)
qed

lemma aborted_from_L549:
  assumes "ewfverify_abort s \<noteq> 0"
  shows "\<exists>s'. run w (Running L549_on_abort s) = Returned EXIT_FAILURE s'
        \<and> filter is_driver (trace s') = filter is_driver (trace s)
        \<and> filter is_verdict (trace s') = filter is_verdict (trace s)
             @ (if ret w verification_handle_close = 0 \<and> ret w verification_handle_free = 1
                then [verdict ''ABORTED''] else [])"
proof (cases "ret w libsystem_signal_detach = 1")
  case True
  let ?s = "deliver w L549_on_abort ((extern w libsystem_signal_detach s)\<lparr>handler_attached := False\<rparr>)"
  from assms have "ewfverify_abort ?s \<noteq> 0"
    by (simp add: deliver_abort extern_def)
  from aborted_from_L562 [OF this, of w] True show ?thesis
    by (simp add: run_Running step_def Let_def deliver_is_driver deliver_is_verdict extern_def)
next
  case False
  let ?s = "deliver w L549_on_abort
              (print_and_free_error
                 (emit (fprintf stderr ''Unable to detach signal handler.\<newline>'')
                    (extern w libsystem_signal_detach s)))"
  from assms have "ewfverify_abort ?s \<noteq> 0"
    by (simp add: deliver_abort extern_def emit_def print_and_free_error_def)
  from aborted_from_L562 [OF this, of w] False show ?thesis
    by (simp add: run_Running step_def Let_def deliver_is_driver deliver_is_verdict extern_def emit_def
          print_and_free_error_def)
qed

lemma aborted_from_L349:
  assumes "ewfverify_abort s \<noteq> 0"
  shows "\<exists>s'. run w (Running L349_check_abort s) = Returned EXIT_FAILURE s'
        \<and> filter is_driver (trace s') = filter is_driver (trace s)
        \<and> filter is_verdict (trace s') = filter is_verdict (trace s)
             @ (if ret w verification_handle_close = 0 \<and> ret w verification_handle_free = 1
                then [verdict ''ABORTED''] else [])"
proof -
  let ?s = "deliver w L349_check_abort s"
  from assms have "ewfverify_abort ?s \<noteq> 0"
    by (simp add: deliver_abort)
  from aborted_from_L549 [OF this, of w] assms show ?thesis
    by (simp add: run_Running step_def deliver_is_driver deliver_is_verdict)
qed


lemmas eval_defs = state_at_def start_def initial_state_def step_def deliver_def
  ewfverify_signal_handler_def stmt_defs main_def run_def

subsection \<open>No segment file on the command line\<close>

text \<open>
  Claim C9. When the option loop is over and no argument is left
  (\<^verbatim>\<open>optind == argc\<close> at line 268), the program prints
  \<^verbatim>\<open>Missing EWF image file(s).\<close> to stderr and the usage text to stdout, and returns
  \<^verbatim>\<open>EXIT_FAILURE\<close>: after these lines the trace holds at most the print of a pending
  error, so no verification handle is created, no segment file and no log file is
  opened, and the handle is still NULL at the end.
\<close>

theorem missing_files_exit:
  assumes "Running L268_check_filenames s \<in> set (execution w (start w))"
    and "optind s = length (argv w)"
  shows "\<exists>s'. main w = Returned EXIT_FAILURE s'
           \<and> trace s' = trace s @ fprintf stderr ''Missing EWF image file(s).\<newline>''
                # map (fprintf stdout) usage_text
                @ (if error s then [libsystem_notify_print_error_backtrace, liberror_error_free] else [])
           \<and> filter creates_or_opens (trace s') = []
           \<and> ewfverify_verification_handle s' = None"
proof -
  from assms(1) have "handle_inv (Running L268_check_filenames s)"
    and "order_inv w (Running L268_check_filenames s)"
    by (rule handle_inv_reachable, rule order_inv_reachable)
  with assms(2) show ?thesis
    by (simp add: main_from [OF assms(1)] step_def deliver_detached run_Running run_Returned
          stmt_defs filter_fprintf)
qed

theorem missing_files_exit_witness:
  "(\<exists>s. state_at no_files_world L268_check_filenames = Some s \<and> optind s = length (argv no_files_world))
   \<and> (\<exists>s'. main no_files_world = Returned EXIT_FAILURE s' \<and> filter creates_or_opens (trace s') = [])"
proof -
  obtain s where s: "state_at no_files_world L268_check_filenames = Some s"
    and o: "optind s = length (argv no_files_world)"
    by (simp add: no_files_world_def plain_world_def eval_defs)
  from missing_files_exit [OF state_at_execution [OF s] o] s o show ?thesis
    by auto
qed

subsection \<open>A failure to open the segment files\<close>

text \<open>
  Claim C2. At the test of the abort flag after
  \<^verbatim>\<open>verification_handle_open_input\<close> (line 349) the variable \<^verbatim>\<open>result\<close> holds
  what that call returned. When the flag is clear there and the result is not 1, the
  program returns \<^verbatim>\<open>EXIT_FAILURE\<close>, neither verification driver is ever called, and
  the handle is released: \<^verbatim>\<open>verification_handle_close\<close> and then
  \<^verbatim>\<open>verification_handle_free\<close> are called, once each.
\<close>

theorem open_failure_is_fatal:
  assumes "Running L349_check_abort s \<in> set (execution w (start w))"
    and "ewfverify_abort s = 0"
    and "result s \<noteq> 1"
  shows "result s = ret w (verification_handle_open_input (argv_filenames s))
         \<and> (\<exists>s'. main w = Returned EXIT_FAILURE s'
               \<and> filter is_driver (trace s') = []
               \<and> filter is_release (trace s') = [verification_handle_close, verification_handle_free])"
proof -
  from assms(1) have "handle_inv (Running L349_check_abort s)"
    and "order_inv w (Running L349_check_abort s)"
    by (rule handle_inv_reachable, rule order_inv_reachable)
  with assms(2,3) show ?thesis
    by (auto simp: main_from [OF assms(1)] step_def run_Running run_Returned
          stmt_defs deliver_fields deliver_is_driver deliver_is_release)
qed

theorem open_failure_is_fatal_witness:
  "(\<exists>s. state_at open_fails_world L349_check_abort = Some s \<and> ewfverify_abort s = 0 \<and> result s \<noteq> 1)
   \<and> (\<exists>s'. main open_fails_world = Returned EXIT_FAILURE s' \<and> filter is_driver (trace s') = [])"
proof -
  obtain s where s: "state_at open_fails_world L349_check_abort = Some s"
    and a: "ewfverify_abort s = 0" and r: "result s \<noteq> 1"
    by (simp add: open_fails_world_def plain_world_def eval_defs)
  from open_failure_is_fatal [OF state_at_execution [OF s] a r] s a r show ?thesis
    by auto
qed

subsection \<open>One traversal per run\<close>

text \<open>
  Claim C8. In every execution the driver calls of the trace are none or exactly one, and
  the one agrees with the input format of the handle it is given: the single files driver
  for \<^verbatim>\<open>VERIFICATION_HANDLE_INPUT_FORMAT_FILES\<close>, the media driver otherwise. An
  execution that reaches line 478 makes exactly the call the format of the handle there
  selects, and no other driver call before or after.
\<close>

theorem one_driver_per_run:
  "(filter is_driver (calls w) = [] \<or> (\<exists>d. filter is_driver (calls w) = [d] \<and> driver_ok w d))
   \<and> (\<forall>s. Running L478_verify s \<in> set (execution w (start w)) \<longrightarrow>
         (\<exists>h. ewfverify_verification_handle s = Some h
             \<and> filter is_driver (calls w) =
                 [if input_format h = VERIFICATION_HANDLE_INPUT_FORMAT_FILES w
                  then verification_handle_verify_single_files h (print_status_information s)
                  else verification_handle_verify_input h (print_status_information s)]))"
proof (intro conjI allI impI)
  obtain r s' where m: "main w = Returned r s'"
    using main_returns by blast
  with drivers_inv_reachable [OF main_in_execution, of w]
  show "filter is_driver (calls w) = [] \<or> (\<exists>d. filter is_driver (calls w) = [d] \<and> driver_ok w d)"
    by (simp add: calls_def driver_trace_ok_cases)
next
  fix s
  assume reach: "Running L478_verify s \<in> set (execution w (start w))"
  obtain r s' where m: "main w = Returned r s'"
    using main_returns by blast
  from reach have "handle_inv (Running L478_verify s)" and "drivers_inv w (Running L478_verify s)"
    by (rule handle_inv_reachable, rule drivers_inv_reachable)
  then obtain h where h: "ewfverify_verification_handle s = Some h"
    and none: "filter is_driver (trace s) = []"
    by auto
  let ?d = "if input_format h = VERIFICATION_HANDLE_INPUT_FORMAT_FILES w
            then verification_handle_verify_single_files h (print_status_information s)
            else verification_handle_verify_input h (print_status_information s)"
  from h none have "drivers_fixed [?d] (step w L478_verify s)"
    by (simp add: step_def stmt_defs deliver_is_driver)
  then have "drivers_fixed [?d] (run w (step w L478_verify s))"
    by (rule drivers_fixed_run)
  with m main_from [OF reach] have "filter is_driver (calls w) = [?d]"
    by (simp add: calls_def)
  with h show "\<exists>h. ewfverify_verification_handle s = Some h \<and> filter is_driver (calls w) =
                 [if input_format h = VERIFICATION_HANDLE_INPUT_FORMAT_FILES w
                  then verification_handle_verify_single_files h (print_status_information s)
                  else verification_handle_verify_input h (print_status_information s)]"
    by simp
qed


theorem one_driver_per_run_witness:
  "(\<exists>s. state_at plain_world L478_verify = Some s)
   \<and> filter is_driver (calls plain_world) =
       [verification_handle_verify_input \<lparr>input_format = 114, process_buffer_size = 0\<rparr> 1]
   \<and> (\<exists>s. state_at files_world L478_verify = Some s)
   \<and> filter is_driver (calls files_world) =
       [verification_handle_verify_single_files \<lparr>input_format = 102, process_buffer_size = 0\<rparr> 1]"
proof -
  obtain s where s: "state_at plain_world L478_verify = Some s"
    and h: "ewfverify_verification_handle s = Some \<lparr>input_format = 114, process_buffer_size = 0\<rparr>"
    and p: "print_status_information s = 1"
    by (simp add: plain_world_def eval_defs)
  have f: "VERIFICATION_HANDLE_INPUT_FORMAT_FILES plain_world = 102"
    by (simp add: plain_world_def)
  from one_driver_per_run [of plain_world] state_at_execution [OF s]
  obtain h' where "ewfverify_verification_handle s = Some h'"
    and "filter is_driver (calls plain_world) =
           [if input_format h' = VERIFICATION_HANDLE_INPUT_FORMAT_FILES plain_world
            then verification_handle_verify_single_files h' (print_status_information s)
            else verification_handle_verify_input h' (print_status_information s)]"
    by blast
  with h p f have a: "filter is_driver (calls plain_world) =
       [verification_handle_verify_input \<lparr>input_format = 114, process_buffer_size = 0\<rparr> 1]"
    by auto
  obtain t where t: "state_at files_world L478_verify = Some t"
    and ht: "ewfverify_verification_handle t = Some \<lparr>input_format = 102, process_buffer_size = 0\<rparr>"
    and pt: "print_status_information t = 1"
    by (simp add: files_world_def plain_world_def eval_defs)
  have ft: "VERIFICATION_HANDLE_INPUT_FORMAT_FILES files_world = 102"
    by (simp add: files_world_def plain_world_def)
  from one_driver_per_run [of files_world] state_at_execution [OF t]
  obtain h'' where "ewfverify_verification_handle t = Some h''"
    and "filter is_driver (calls files_world) =
           [if input_format h'' = VERIFICATION_HANDLE_INPUT_FORMAT_FILES files_world
            then verification_handle_verify_single_files h'' (print_status_information t)
            else verification_handle_verify_input h'' (print_status_information t)]"
    by blast
  with ht pt ft have b: "filter is_driver (calls files_world) =
       [verification_handle_verify_single_files \<lparr>input_format = 102, process_buffer_size = 0\<rparr> 1]"
    by auto
  from s a t b show ?thesis
    by blast
qed

subsection \<open>The exit status\<close>









subsection \<open>Cancellation\<close>

text \<open>
  Claim C5, amended. The handler sets the flag to 1 and calls
  \<^verbatim>\<open>verification_handle_signal_abort\<close> exactly when the handle is not NULL, and a
  signal that arrives while the handler is attached runs it. When the flag is set at the
  test after \<^verbatim>\<open>verification_handle_open_input\<close> (line 349), no driver is ever called
  and the program returns \<^verbatim>\<open>EXIT_FAILURE\<close>; it never reports \<^verbatim>\<open>SUCCESS\<close> or
  \<^verbatim>\<open>FAILURE\<close>, and it reports \<^verbatim>\<open>ABORTED\<close> exactly when
  \<^verbatim>\<open>verification_handle_close\<close> returns 0 and \<^verbatim>\<open>verification_handle_free\<close>
  returns 1 (otherwise it leaves through \<^verbatim>\<open>on_error\<close> without a report).
\<close>

theorem abort_before_verification:
  "ewfverify_abort (ewfverify_signal_handler w s0) = 1
   \<and> filter is_signal_abort (trace (ewfverify_signal_handler w s0)) =
       filter is_signal_abort (trace s0)
       @ (if ewfverify_verification_handle s0 \<noteq> None then [verification_handle_signal_abort] else [])
   \<and> (handler_attached s0 \<and> signal_at w p \<longrightarrow> deliver w p s0 = ewfverify_signal_handler w s0)
   \<and> (Running L349_check_abort s \<in> set (execution w (start w)) \<and> ewfverify_abort s \<noteq> 0 \<longrightarrow>
        (\<exists>s'. main w = Returned EXIT_FAILURE s'
             \<and> filter is_driver (trace s') = []
             \<and> filter is_verdict (trace s') =
                 (if ret w verification_handle_close = 0 \<and> ret w verification_handle_free = 1
                  then [verdict ''ABORTED''] else [])))"
proof (intro conjI impI)
  show "ewfverify_abort (ewfverify_signal_handler w s0) = 1"
    by (simp add: ewfverify_signal_handler_def emit_def Let_def)
  show "filter is_signal_abort (trace (ewfverify_signal_handler w s0)) =
       filter is_signal_abort (trace s0)
       @ (if ewfverify_verification_handle s0 \<noteq> None then [verification_handle_signal_abort] else [])"
    by (simp add: ewfverify_signal_handler_def emit_def Let_def)
  show "deliver w p s0 = ewfverify_signal_handler w s0" if "handler_attached s0 \<and> signal_at w p"
    using that by (simp add: deliver_def)
next
  assume a: "Running L349_check_abort s \<in> set (execution w (start w)) \<and> ewfverify_abort s \<noteq> 0"
  then have reach: "Running L349_check_abort s \<in> set (execution w (start w))"
    and set: "ewfverify_abort s \<noteq> 0"
    by simp_all
  from reach have "order_inv w (Running L349_check_abort s)"
    and "verdict_inv w (Running L349_check_abort s)"
    by (rule order_inv_reachable, rule verdict_inv_reachable)
  with aborted_from_L349 [OF set, of w] main_from [OF reach]
  show "\<exists>s'. main w = Returned EXIT_FAILURE s'
             \<and> filter is_driver (trace s') = []
             \<and> filter is_verdict (trace s') =
                 (if ret w verification_handle_close = 0 \<and> ret w verification_handle_free = 1
                  then [verdict ''ABORTED''] else [])"
    by (auto simp: run_Running)
qed

theorem abort_before_verification_witness:
  "(\<exists>s. state_at abort_at_open_clean_world L349_check_abort = Some s
        \<and> ewfverify_abort s \<noteq> 0 \<and> handler_attached s
        \<and> deliver abort_at_open_clean_world L343_open_input s =
            ewfverify_signal_handler abort_at_open_clean_world s)
   \<and> signal_at abort_at_open_clean_world L343_open_input
   \<and> filter is_verdict (calls abort_at_open_clean_world) = [verdict ''ABORTED'']
   \<and> filter is_driver (calls abort_at_open_clean_world) = []"
proof -
  obtain s where s: "state_at abort_at_open_clean_world L349_check_abort = Some s"
    and a: "ewfverify_abort s \<noteq> 0" and h: "handler_attached s"
    by (simp add: abort_at_open_clean_world_def plain_world_def eval_defs)
  have g: "signal_at abort_at_open_clean_world L343_open_input"
    by (simp add: abort_at_open_clean_world_def)
  have r: "ret abort_at_open_clean_world verification_handle_close = 0"
    "ret abort_at_open_clean_world verification_handle_free = 1"
    by (simp_all add: abort_at_open_clean_world_def plain_world_def)
  note t = abort_before_verification [of abort_at_open_clean_world s L343_open_input s]
  from t h g have d: "deliver abort_at_open_clean_world L343_open_input s =
            ewfverify_signal_handler abort_at_open_clean_world s"
    by blast
  from t state_at_execution [OF s] a r
  have "filter is_verdict (calls abort_at_open_clean_world) = [verdict ''ABORTED'']"
    and "filter is_driver (calls abort_at_open_clean_world) = []"
    by (auto simp: calls_def)
  with s a h d g show ?thesis
    by blast
qed

text \<open>
  The claim as stated has every such execution report \<^verbatim>\<open>ABORTED\<close>. When the flag is
  set at line 349 and \<^verbatim>\<open>verification_handle_close\<close> then fails, the program leaves
  through \<^verbatim>\<open>on_error\<close> and reports nothing.
\<close>

theorem abort_before_verification_counterexample:
  "map_option ewfverify_abort (state_at abort_at_open_world L349_check_abort) = Some 1
   \<and> filter is_verdict (calls abort_at_open_world) = []
   \<and> exit_status (main abort_at_open_world) = Some EXIT_FAILURE"
  by (simp add: calls_def abort_at_open_world_def plain_world_def eval_defs)

subsection \<open>The zero-on-error policy\<close>

lemma zero_inv_exec: "zero_inv w (Running p s) \<Longrightarrow> zero_inv w (exec w p s)"
  by (cases p)
     (auto simp: stmt_defs filter_fprintf w_given_def split: list.splits option.splits)

lemma zero_inv_deliver:
  "zero_inv w (Running p' s) \<Longrightarrow> zero_inv w (Running p' (deliver w p s))"
  by (simp add: deliver_zero_or_driver deliver_fields)

lemma zero_inv_reachable: "c \<in> set (execution w (start w)) \<Longrightarrow> zero_inv w c"
  by (erule reachable_invariant)
     (simp add: start_def initial_state_def, erule zero_inv_exec, erule zero_inv_deliver)

lemma zero_trace_ok_cases:
  "zero_trace_ok v ks \<Longrightarrow>
     ks = [] \<or> ks = [verification_handle_set_zero_chunk_on_error v]
     \<or> (\<exists>d. is_driver d \<and> ks = [verification_handle_set_zero_chunk_on_error v, d])"
  by (cases "(v, ks)" rule: zero_trace_ok.cases) auto

text \<open>
  Claim C6. The policy variable \<^verbatim>\<open>zero_chunk_on_error\<close> starts as 0. Of the calls
  of an execution, those that set the policy or run a driver are none, or the setter
  alone, or the setter followed by one driver; and the setter is given 1 when
  \<^verbatim>\<open>-w\<close> is among the options and 0 otherwise. At line 478, where a driver is
  about to be called, the variable has that value and the setter has been called with
  it.
\<close>

theorem zero_chunk_policy_installed:
  "zero_chunk_on_error (initial_state w) = 0
   \<and> (filter zero_or_driver (calls w) = []
       \<or> filter zero_or_driver (calls w) =
            [verification_handle_set_zero_chunk_on_error (if w_given (getopt_returns w) then 1 else 0)]
       \<or> (\<exists>d. is_driver d
             \<and> filter zero_or_driver (calls w) =
                 [verification_handle_set_zero_chunk_on_error (if w_given (getopt_returns w) then 1 else 0), d]))
   \<and> (\<forall>s. Running L478_verify s \<in> set (execution w (start w)) \<longrightarrow>
         zero_chunk_on_error s = (if w_given (getopt_returns w) then 1 else 0)
         \<and> filter zero_or_driver (trace s) =
             [verification_handle_set_zero_chunk_on_error (zero_chunk_on_error s)])"
proof (intro conjI allI impI)
  show "zero_chunk_on_error (initial_state w) = 0"
    by (simp add: initial_state_def)
next
  obtain r s' where m: "main w = Returned r s'"
    using main_returns by blast
  with zero_inv_reachable [OF main_in_execution, of w]
  have inv: "zero_inv w (Returned r s')"
    by simp
  then have v: "filter zero_or_driver (trace s') \<noteq> [] \<Longrightarrow>
      zero_chunk_on_error s' = (if w_given (getopt_returns w) then 1 else 0)"
    by (auto simp: w_given_def)
  from inv have "zero_trace_ok (zero_chunk_on_error s') (filter zero_or_driver (trace s'))"
    by simp
  from zero_trace_ok_cases [OF this] v m
  show "filter zero_or_driver (calls w) = []
       \<or> filter zero_or_driver (calls w) =
            [verification_handle_set_zero_chunk_on_error (if w_given (getopt_returns w) then 1 else 0)]
       \<or> (\<exists>d. is_driver d
             \<and> filter zero_or_driver (calls w) =
                 [verification_handle_set_zero_chunk_on_error (if w_given (getopt_returns w) then 1 else 0), d])"
    by (auto simp: calls_def)
next
  fix s
  assume reach: "Running L478_verify s \<in> set (execution w (start w))"
  from zero_inv_reachable [OF reach]
  show "zero_chunk_on_error s = (if w_given (getopt_returns w) then 1 else 0)"
    and "filter zero_or_driver (trace s) =
             [verification_handle_set_zero_chunk_on_error (zero_chunk_on_error s)]"
    by (auto simp: w_given_def)
qed

theorem zero_chunk_policy_installed_witness:
  "(\<exists>s. state_at w_option_world L478_verify = Some s \<and> zero_chunk_on_error s = 1)
   \<and> w_given (getopt_returns w_option_world)
   \<and> filter zero_or_driver (calls w_option_world) =
       [verification_handle_set_zero_chunk_on_error 1,
        verification_handle_verify_input \<lparr>input_format = 114, process_buffer_size = 0\<rparr> 1]"
proof -
  obtain s where s: "state_at w_option_world L478_verify = Some s"
    by (simp add: w_option_world_def plain_world_def eval_defs)
  have g: "w_given (getopt_returns w_option_world)"
    by (simp add: w_given_def w_option_world_def)
  have c: "filter zero_or_driver (calls w_option_world) =
       [verification_handle_set_zero_chunk_on_error 1,
        verification_handle_verify_input \<lparr>input_format = 114, process_buffer_size = 0\<rparr> 1]"
    by (simp add: calls_def w_option_world_def plain_world_def eval_defs)
  from zero_chunk_policy_installed [of w_option_world] state_at_execution [OF s] g
  have "zero_chunk_on_error s = 1"
    by simp
  with s g c show ?thesis
    by simp
qed

subsection \<open>The digests\<close>

lemma string_compare_eq_0:
  "(libcstring_system_string_compare a b n = 0) = (take n a = take n b)"
  by (induction a b n rule: libcstring_system_string_compare.induct) auto

lemma compare_sha1: "(libcstring_system_string_compare a ''sha1'' 4 = 0) = (take 4 a = ''sha1'')"
  by (simp add: string_compare_eq_0)

lemma compare_sha256: "(libcstring_system_string_compare a ''sha256'' 6 = 0) = (take 6 a = ''sha256'')"
  by (simp add: string_compare_eq_0)

lemma sha_prefixes_differ: "take 4 a = ''sha1'' \<Longrightarrow> take 6 a \<noteq> ''sha256''"
proof
  assume "take 4 a = ''sha1''" and "take 6 a = ''sha256''"
  then have "take 4 (take 6 a) = ''sha2''"
    by simp
  with \<open>take 4 a = ''sha1''\<close> show False
    by simp
qed

lemma given_simps:
  "sha1_given [] = False"
  "sha256_given [] = False"
  "sha1_given (g # gs) = ((g_option g = CHR ''d'' \<and> take 4 (g_optarg g) = ''sha1'') \<or> sha1_given gs)"
  "sha256_given (g # gs) = ((g_option g = CHR ''d'' \<and> take 6 (g_optarg g) = ''sha256'') \<or> sha256_given gs)"
  by (auto simp: sha1_given_def sha256_given_def digest_args_def)

lemma digest_inv_exec: "digest_inv w (Running p s) \<Longrightarrow> digest_inv w (exec w p s)"
proof (cases p)
  case L178_getopt
  assume "digest_inv w (Running p s)"
  with L178_getopt show ?thesis
    by (cases "pending s")
       (auto simp: getopt_case_def emit_def usage_fprint_def filter_fprintf
          given_simps compare_sha1 compare_sha256 dest: sha_prefixes_differ)
qed (simp_all add: stmt_defs filter_fprintf split: option.splits)

lemma digest_inv_deliver:
  "digest_inv w (Running p' s) \<Longrightarrow> digest_inv w (Running p' (deliver w p s))"
  by (simp add: deliver_is_initialize deliver_fields)

lemma digest_inv_reachable: "c \<in> set (execution w (start w)) \<Longrightarrow> digest_inv w c"
  by (erule reachable_invariant)
     (simp add: start_def initial_state_def, erule digest_inv_exec, erule digest_inv_deliver)

lemma initialize_ok_cases:
  "initialize_ok a b c es \<Longrightarrow> es = [] \<or> es = [verification_handle_initialize a b c]"
  by (cases "(a, b, c, es)" rule: initialize_ok.cases) auto

text \<open>
  Claim C3, amended. In every execution the verification handle is created at most once,
  and when it is, \<^verbatim>\<open>verification_handle_initialize\<close> is given 1 for MD5, 1 for
  SHA-1 exactly when the argument of some \<^verbatim>\<open>-d\<close> option begins with
  \<^verbatim>\<open>sha1\<close> (the comparison covers the first four characters), and 1 for SHA-256
  exactly when the argument of some \<^verbatim>\<open>-d\<close> option begins with \<^verbatim>\<open>sha256\<close>
  (the first six characters); each is 0 otherwise, and the call has no other flag.
\<close>

theorem digest_selection:
  "filter is_initialize (calls w) = []
   \<or> filter is_initialize (calls w) =
        [verification_handle_initialize 1
           (if sha1_given (getopt_returns w) then 1 else 0)
           (if sha256_given (getopt_returns w) then 1 else 0)]"
proof -
  obtain r s' where m: "main w = Returned r s'"
    using main_returns by blast
  with digest_inv_reachable [OF main_in_execution, of w]
  have inv: "digest_inv w (Returned r s')"
    by simp
  then have "filter is_initialize (trace s') \<noteq> [] \<Longrightarrow>
      calculate_md5 s' = 1
      \<and> calculate_sha1 s' = (if sha1_given (getopt_returns w) then 1 else 0)
      \<and> calculate_sha256 s' = (if sha256_given (getopt_returns w) then 1 else 0)"
    by (auto simp: given_simps)
  moreover from inv
  have "initialize_ok 1 (calculate_sha1 s') (calculate_sha256 s') (filter is_initialize (trace s'))"
    by simp
  from initialize_ok_cases [OF this]
  have "filter is_initialize (trace s') = []
      \<or> filter is_initialize (trace s') =
          [verification_handle_initialize 1 (calculate_sha1 s') (calculate_sha256 s')]" .
  ultimately show ?thesis
    using m by (auto simp: calls_def)
qed

theorem digest_selection_witness:
  "sha256_given (getopt_returns sha256_world) \<and> \<not> sha1_given (getopt_returns sha256_world)
   \<and> filter is_initialize (calls sha256_world) = [verification_handle_initialize 1 0 1]"
proof -
  have g: "sha256_given (getopt_returns sha256_world)" "\<not> sha1_given (getopt_returns sha256_world)"
    by (simp_all add: sha256_world_def given_simps)
  have "filter is_initialize (calls sha256_world) \<noteq> []"
    by (simp add: calls_def sha256_world_def plain_world_def eval_defs compare_sha1 compare_sha256)
  with digest_selection [of sha256_world] g show ?thesis
    by simp
qed

text \<open>
  The claim as stated enables SHA-1 only for the option \<^verbatim>\<open>-d sha1\<close>. With
  \<^verbatim>\<open>-d sha1sum\<close> no argument of \<^verbatim>\<open>-d\<close> is \<^verbatim>\<open>sha1\<close>, and the handle is
  created with SHA-1 enabled.
\<close>

theorem digest_selection_counterexample:
  "''sha1'' \<notin> set (digest_args (getopt_returns sha1sum_world))
   \<and> filter is_initialize (calls sha1sum_world) = [verification_handle_initialize 1 1 0]"
  by (simp add: calls_def sha1sum_world_def plain_world_def eval_defs digest_args_def compare_sha1)

subsection \<open>The process buffer size\<close>

lemma size_inv_exec: "size_inv w (Running p s) \<Longrightarrow> size_inv w (exec w p s)"
  by (cases p)
     (auto simp: stmt_defs filter_fprintf size_untouched_def p_given_def drivers_size_def
        split: list.splits option.splits)

lemma size_inv_deliver: "size_inv w (Running p' s) \<Longrightarrow> size_inv w (Running p' (deliver w p s))"
  by (simp add: size_untouched_def deliver_fields deliver_is_driver deliver_is_set_size)

lemma size_inv_reachable: "c \<in> set (execution w (start w)) \<Longrightarrow> size_inv w c"
  by (erule reachable_invariant)
     (simp add: start_def initial_state_def size_untouched_def drivers_size_def,
      erule size_inv_exec, erule size_inv_deliver)

lemma size_reset_exec: "size_reset (Running p s) \<Longrightarrow> size_reset (exec w p s)"
  by (cases p)
     (auto simp: stmt_defs filter_fprintf drivers_size_def split: list.splits option.splits)

lemma size_reset_deliver: "size_reset (Running p' s) \<Longrightarrow> size_reset (Running p' (deliver w p s))"
  by (simp add: deliver_fields deliver_is_driver)

lemma size_reset_run: "size_reset c \<Longrightarrow> size_reset (run w c)"
proof -
  assume "size_reset c"
  then show ?thesis
  proof (rule execution_invariant)
    fix p s
    assume "size_reset (Running p s)"
    then show "size_reset (step w p s)"
      by (rule step_invariant) (erule size_reset_exec, erule size_reset_deliver)
  next
    show "run w c \<in> set (execution w c)"
      by (rule run_in_execution)
  qed
qed

text \<open>
  Claim C7. Without an option \<^verbatim>\<open>-p\<close> the setter of the process buffer size is
  never called, and a driver is given the handle with the size it was created with. With
  the option, when the setter returns 0, or returns neither 0 nor -1 and leaves a size
  above \<^verbatim>\<open>SSIZE_MAX\<close>, the step at line 428 goes on to line 453 (not to
  \<^verbatim>\<open>on_error\<close>), with the warning printed right after the call and the size of the
  handle reset to 0; and a driver called later is given the handle with size 0.
\<close>

theorem process_buffer_size_default:
  "(\<not> p_given (getopt_returns w) \<longrightarrow>
      filter is_set_process_buffer_size (calls w) = []
      \<and> drivers_size (process_buffer_size (new_handle w)) (filter is_driver (calls w)))
   \<and> (Running L428_process_buffer_size s \<in> set (execution w (start w))
       \<and> option_process_buffer_size s = Some x
       \<and> ret w (verification_handle_set_process_buffer_size x) \<noteq> - 1
       \<and> (ret w (verification_handle_set_process_buffer_size x) = 0
           \<or> process_buffer_size_set w > SSIZE_MAX w) \<longrightarrow>
        (\<exists>s' es. step w L428_process_buffer_size s = Running L453_log_handle s'
            \<and> map_option process_buffer_size (ewfverify_verification_handle s') = Some 0
            \<and> trace s' = trace s @ [verification_handle_set_process_buffer_size x,
                                      fprintf stderr unsupported_size] @ es)
        \<and> drivers_size 0 (filter is_driver (calls w)))"
proof (intro conjI impI)
  assume none: "\<not> p_given (getopt_returns w)"
  obtain r s' where m: "main w = Returned r s'"
    using main_returns by blast
  with size_inv_reachable [OF main_in_execution, of w] none
  show "filter is_set_process_buffer_size (calls w) = []"
    and "drivers_size (process_buffer_size (new_handle w)) (filter is_driver (calls w))"
    by (auto simp: calls_def size_untouched_def)
next
  assume a: "Running L428_process_buffer_size s \<in> set (execution w (start w))
       \<and> option_process_buffer_size s = Some x
       \<and> ret w (verification_handle_set_process_buffer_size x) \<noteq> - 1
       \<and> (ret w (verification_handle_set_process_buffer_size x) = 0
           \<or> process_buffer_size_set w > SSIZE_MAX w)"
  then have reach: "Running L428_process_buffer_size s \<in> set (execution w (start w))"
    by simp
  from reach have "handle_inv (Running L428_process_buffer_size s)"
    and "order_inv w (Running L428_process_buffer_size s)"
    by (rule handle_inv_reachable, rule order_inv_reachable)
  then obtain h where h: "ewfverify_verification_handle s = Some h"
    and none: "filter is_driver (trace s) = []"
    by auto
  let ?e = "verification_handle_set_process_buffer_size x"
  let ?s = "emit (fprintf stderr unsupported_size)
              ((extern w ?e s)\<lparr>result := ret w ?e,
                 ewfverify_verification_handle := Some (h\<lparr>process_buffer_size := 0\<rparr>)\<rparr>)"
  from a h have st: "step w L428_process_buffer_size s = Running L453_log_handle (deliver w L428_process_buffer_size ?s)"
    by (auto simp: step_def Let_def extern_def emit_def unsupported_size_def)
  obtain es where es: "trace (deliver w L428_process_buffer_size ?s) = trace ?s @ es"
    using deliver_trace by blast
  from st es show "\<exists>s' es. step w L428_process_buffer_size s = Running L453_log_handle s'
            \<and> map_option process_buffer_size (ewfverify_verification_handle s') = Some 0
            \<and> trace s' = trace s @ [verification_handle_set_process_buffer_size x,
                                      fprintf stderr unsupported_size] @ es"
    by (simp add: deliver_fields extern_def emit_def)
  from none have "size_reset (step w L428_process_buffer_size s)"
    unfolding st by (simp add: deliver_fields deliver_is_driver extern_def emit_def drivers_size_def)
  then have "size_reset (run w (step w L428_process_buffer_size s))"
    by (rule size_reset_run)
  moreover obtain r s' where "main w = Returned r s'"
    using main_returns by blast
  ultimately show "drivers_size 0 (filter is_driver (calls w))"
    using main_from [OF reach] by (simp add: calls_def)
qed

theorem process_buffer_size_default_witness:
  "\<not> p_given (getopt_returns plain_world)
   \<and> filter is_set_process_buffer_size (calls plain_world) = []
   \<and> (\<exists>s. state_at p_option_world L428_process_buffer_size = Some s
          \<and> option_process_buffer_size s = Some ''junk'')
   \<and> ret p_option_world (verification_handle_set_process_buffer_size ''junk'') = 0
   \<and> filter is_driver (calls p_option_world) =
        [verification_handle_verify_input \<lparr>input_format = 114, process_buffer_size = 0\<rparr> 1]
   \<and> drivers_size 0 (filter is_driver (calls p_option_world))"
proof -
  have n: "\<not> p_given (getopt_returns plain_world)"
    by (simp add: p_given_def plain_world_def)
  obtain s where s: "state_at p_option_world L428_process_buffer_size = Some s"
    and o: "option_process_buffer_size s = Some ''junk''"
    by (simp add: p_option_world_def plain_world_def eval_defs)
  have r: "ret p_option_world (verification_handle_set_process_buffer_size ''junk'') = 0"
    by (simp add: p_option_world_def)
  have d: "filter is_driver (calls p_option_world) =
        [verification_handle_verify_input \<lparr>input_format = 114, process_buffer_size = 0\<rparr> 1]"
    by (simp add: calls_def p_option_world_def plain_world_def eval_defs)
  from process_buffer_size_default [of plain_world] n
  have a: "filter is_set_process_buffer_size (calls plain_world) = []"
    by blast
  from process_buffer_size_default [of p_option_world s "''junk''"] state_at_execution [OF s] o r
  have b: "drivers_size 0 (filter is_driver (calls p_option_world))"
    by simp
  from n a s o r d b show ?thesis
    by blast
qed

subsection \<open>Unsupported values\<close>

lemma run_on_error_no_driver:
  "filter is_driver (trace s) = [] \<Longrightarrow>
   \<exists>s'. run w (Running L608_on_error s) = Returned EXIT_FAILURE s' \<and> filter is_driver (trace s') = []"
  using from_on_error [of w s] by auto

text \<open>
  Claim C10. An argument of \<^verbatim>\<open>-d\<close> that begins with neither \<^verbatim>\<open>sha1\<close> nor
  \<^verbatim>\<open>sha256\<close> prints a warning and the option loop goes on, with the digest flags
  as they were. When the setter of the header codepage returns 0, the warning that the
  codepage defaults to ascii is printed right after the call and the program goes on to
  line 395; for every result other than -1 it goes on to line 395; for -1 it goes to
  \<^verbatim>\<open>on_error\<close> and returns \<^verbatim>\<open>EXIT_FAILURE\<close> without a driver call. The
  same holds for the setter of the input format, with the warning that the format
  defaults to raw and line 417 as the next place.
\<close>

theorem unsupported_values_degrade:
  "(Running L178_getopt s \<in> set (execution w (start w))
    \<and> pending s = g # gs \<and> g_option g = CHR ''d''
    \<and> take 4 (g_optarg g) \<noteq> ''sha1'' \<and> take 6 (g_optarg g) \<noteq> ''sha256'' \<longrightarrow>
      step w L178_getopt s =
        Running L178_getopt (emit (fprintf stderr unsupported_digest) (s\<lparr>pending := gs, optind := g_optind g\<rparr>)))
   \<and> (Running L373_header_codepage s \<in> set (execution w (start w))
       \<and> option_header_codepage s = Some x \<longrightarrow>
         (ret w (verification_handle_set_header_codepage x) = 0 \<longrightarrow>
            (\<exists>s' es. step w L373_header_codepage s = Running L395_format s'
                \<and> trace s' = trace s @ [verification_handle_set_header_codepage x,
                                          fprintf stderr unsupported_codepage] @ es))
         \<and> (ret w (verification_handle_set_header_codepage x) \<noteq> - 1 \<longrightarrow>
              (\<exists>s'. step w L373_header_codepage s = Running L395_format s'))
         \<and> (ret w (verification_handle_set_header_codepage x) = - 1 \<longrightarrow>
              (\<exists>s'. step w L373_header_codepage s = Running L608_on_error s')
              \<and> (\<exists>s'. main w = Returned EXIT_FAILURE s' \<and> filter is_driver (trace s') = [])))
   \<and> (Running L395_format s \<in> set (execution w (start w))
       \<and> option_format s = Some x \<longrightarrow>
         (ret w (verification_handle_set_format x) = 0 \<longrightarrow>
            (\<exists>s' es. step w L395_format s = Running L417_zero_chunk_on_error s'
                \<and> trace s' = trace s @ [verification_handle_set_format x,
                                          fprintf stderr unsupported_format] @ es))
         \<and> (ret w (verification_handle_set_format x) \<noteq> - 1 \<longrightarrow>
              (\<exists>s'. step w L395_format s = Running L417_zero_chunk_on_error s'))
         \<and> (ret w (verification_handle_set_format x) = - 1 \<longrightarrow>
              (\<exists>s'. step w L395_format s = Running L608_on_error s')
              \<and> (\<exists>s'. main w = Returned EXIT_FAILURE s' \<and> filter is_driver (trace s') = [])))"
proof (intro conjI impI)
  assume a: "Running L178_getopt s \<in> set (execution w (start w))
    \<and> pending s = g # gs \<and> g_option g = CHR ''d''
    \<and> take 4 (g_optarg g) \<noteq> ''sha1'' \<and> take 6 (g_optarg g) \<noteq> ''sha256''"
  then have "Running L178_getopt s \<in> set (execution w (start w))"
    by simp
  then have "handle_inv (Running L178_getopt s)"
    by (rule handle_inv_reachable)
  with a show "step w L178_getopt s =
        Running L178_getopt (emit (fprintf stderr unsupported_digest) (s\<lparr>pending := gs, optind := g_optind g\<rparr>))"
    by (simp add: step_def getopt_case_def emit_def deliver_detached unsupported_digest_def
          string_compare_eq_0)
next
  let ?e = "verification_handle_set_header_codepage x"
  assume a: "Running L373_header_codepage s \<in> set (execution w (start w))
       \<and> option_header_codepage s = Some x"
  {
    assume r: "ret w ?e = 0"
    let ?s = "emit (fprintf stderr unsupported_codepage) ((extern w ?e s)\<lparr>result := ret w ?e\<rparr>)"
    obtain es where "trace (deliver w L373_header_codepage ?s) = trace ?s @ es"
      using deliver_trace by blast
    with a r show "\<exists>s' es. step w L373_header_codepage s = Running L395_format s'
                \<and> trace s' = trace s @ [?e, fprintf stderr unsupported_codepage] @ es"
      by (simp add: step_def Let_def extern_def emit_def unsupported_codepage_def)
  }
  {
    assume "ret w ?e \<noteq> - 1"
    with a show "\<exists>s'. step w L373_header_codepage s = Running L395_format s'"
      by (simp add: step_def Let_def)
  }
  {
    assume r: "ret w ?e = - 1"
    with a show "\<exists>s'. step w L373_header_codepage s = Running L608_on_error s'"
      by (simp add: step_def Let_def)
    from a have reach: "Running L373_header_codepage s \<in> set (execution w (start w))"
      by simp
    then have "order_inv w (Running L373_header_codepage s)"
      by (rule order_inv_reachable)
    then have "filter is_driver (trace s) = []"
      by simp
    then have "filter is_driver (trace (deliver w L373_header_codepage
        (emit (fprintf stderr ''Unable to set header codepage.\<newline>'') ((extern w ?e s)\<lparr>result := - 1\<rparr>)))) = []"
      by (simp add: deliver_is_driver extern_def emit_def)
    from run_on_error_no_driver [OF this, of w] a r
    show "\<exists>s'. main w = Returned EXIT_FAILURE s' \<and> filter is_driver (trace s') = []"
      by (simp add: main_from [OF reach] step_def Let_def run_Running)
  }
next
  let ?e = "verification_handle_set_format x"
  assume a: "Running L395_format s \<in> set (execution w (start w)) \<and> option_format s = Some x"
  {
    assume r: "ret w ?e = 0"
    let ?s = "emit (fprintf stderr unsupported_format)
                ((extern w ?e s)\<lparr>result := ret w ?e,
                   ewfverify_verification_handle :=
                     map_option (\<lambda>h. h\<lparr>input_format := input_format_set w\<rparr>)
                       (ewfverify_verification_handle s)\<rparr>)"
    obtain es where "trace (deliver w L395_format ?s) = trace ?s @ es"
      using deliver_trace by blast
    with a r show "\<exists>s' es. step w L395_format s = Running L417_zero_chunk_on_error s'
                \<and> trace s' = trace s @ [?e, fprintf stderr unsupported_format] @ es"
      by (simp add: step_def Let_def extern_def emit_def unsupported_format_def)
  }
  {
    assume "ret w ?e \<noteq> - 1"
    with a show "\<exists>s'. step w L395_format s = Running L417_zero_chunk_on_error s'"
      by (simp add: step_def Let_def)
  }
  {
    assume r: "ret w ?e = - 1"
    with a show "\<exists>s'. step w L395_format s = Running L608_on_error s'"
      by (simp add: step_def Let_def)
    from a have reach: "Running L395_format s \<in> set (execution w (start w))"
      by simp
    then have "order_inv w (Running L395_format s)"
      by (rule order_inv_reachable)
    then have "filter is_driver (trace s) = []"
      by simp
    then have "filter is_driver (trace (deliver w L395_format
        (emit (fprintf stderr ''Unable to set format.\<newline>'')
           ((extern w ?e s)\<lparr>result := - 1,
              ewfverify_verification_handle :=
                map_option (\<lambda>h. h\<lparr>input_format := input_format_set w\<rparr>)
                  (ewfverify_verification_handle s)\<rparr>)))) = []"
      by (simp add: deliver_is_driver extern_def emit_def)
    from run_on_error_no_driver [OF this, of w] a r
    show "\<exists>s'. main w = Returned EXIT_FAILURE s' \<and> filter is_driver (trace s') = []"
      by (simp add: main_from [OF reach] step_def Let_def run_Running)
  }
qed

theorem unsupported_values_degrade_witness:
  "(\<exists>s. state_at md4_world L178_getopt = Some s
        \<and> step md4_world L178_getopt s =
            Running L178_getopt (emit (fprintf stderr unsupported_digest) (s\<lparr>pending := [], optind := 3\<rparr>)))
   \<and> filter is_initialize (calls md4_world) = [verification_handle_initialize 1 0 0]
   \<and> (\<exists>s s'. state_at codepage_world L373_header_codepage = Some s
        \<and> step codepage_world L373_header_codepage s = Running L395_format s')
   \<and> exit_status (main codepage_world) = Some EXIT_SUCCESS
   \<and> (\<exists>s s'. state_at format_world L395_format = Some s
        \<and> step format_world L395_format s = Running L417_zero_chunk_on_error s')
   \<and> exit_status (main format_world) = Some EXIT_SUCCESS
   \<and> (\<exists>s s'. state_at codepage_error_world L373_header_codepage = Some s
        \<and> step codepage_error_world L373_header_codepage s = Running L608_on_error s')
   \<and> exit_status (main codepage_error_world) = Some EXIT_FAILURE
   \<and> (\<exists>s s'. state_at format_error_world L395_format = Some s
        \<and> step format_error_world L395_format s = Running L608_on_error s')
   \<and> exit_status (main format_error_world) = Some EXIT_FAILURE"
proof -
  let ?g = "\<lparr>g_option = CHR ''d'', g_optarg = ''md4'', g_optind = 3\<rparr>"
  obtain s1 where s1: "state_at md4_world L178_getopt = Some s1" and p1: "pending s1 = [?g]"
    by (simp add: md4_world_def plain_world_def eval_defs)
  from unsupported_values_degrade [of s1 md4_world ?g "[]"] state_at_execution [OF s1] p1
  have a: "step md4_world L178_getopt s1 =
            Running L178_getopt (emit (fprintf stderr unsupported_digest) (s1\<lparr>pending := [], optind := 3\<rparr>))"
    by simp
  have b: "filter is_initialize (calls md4_world) = [verification_handle_initialize 1 0 0]"
    by (simp add: calls_def md4_world_def plain_world_def eval_defs compare_sha1 compare_sha256)
  obtain s2 where s2: "state_at codepage_world L373_header_codepage = Some s2"
    and o2: "option_header_codepage s2 = Some ''klingon''"
    by (simp add: codepage_world_def plain_world_def eval_defs)
  have r2: "ret codepage_world (verification_handle_set_header_codepage ''klingon'') = 0"
    by (simp add: codepage_world_def)
  from unsupported_values_degrade [of s2 codepage_world _ _ "''klingon''"] state_at_execution [OF s2] o2 r2
  have c: "\<exists>s'. step codepage_world L373_header_codepage s2 = Running L395_format s'"
    by simp
  have d: "exit_status (main codepage_world) = Some EXIT_SUCCESS"
    by (simp add: codepage_world_def plain_world_def eval_defs)
  obtain s3 where s3: "state_at format_world L395_format = Some s3"
    and o3: "option_format s3 = Some ''zip''"
    by (simp add: format_world_def plain_world_def eval_defs)
  have r3: "ret format_world (verification_handle_set_format ''zip'') = 0"
    by (simp add: format_world_def)
  from unsupported_values_degrade [of s3 format_world _ _ "''zip''"] state_at_execution [OF s3] o3 r3
  have e: "\<exists>s'. step format_world L395_format s3 = Running L417_zero_chunk_on_error s'"
    by simp
  have f: "exit_status (main format_world) = Some EXIT_SUCCESS"
    by (simp add: format_world_def plain_world_def eval_defs)
  obtain s4 where s4: "state_at codepage_error_world L373_header_codepage = Some s4"
    and o4: "option_header_codepage s4 = Some ''klingon''"
    by (simp add: codepage_error_world_def codepage_world_def plain_world_def eval_defs)
  have r4: "ret codepage_error_world (verification_handle_set_header_codepage ''klingon'') = - 1"
    by (simp add: codepage_error_world_def)
  from unsupported_values_degrade [of s4 codepage_error_world ?g "[]" "''klingon''"]
    state_at_execution [OF s4] o4 r4
  have g: "\<exists>s'. step codepage_error_world L373_header_codepage s4 = Running L608_on_error s'"
    and h: "exit_status (main codepage_error_world) = Some EXIT_FAILURE"
    by auto
  obtain s5 where s5: "state_at format_error_world L395_format = Some s5"
    and o5: "option_format s5 = Some ''zip''"
    by (simp add: format_error_world_def format_world_def plain_world_def eval_defs)
  have r5: "ret format_error_world (verification_handle_set_format ''zip'') = - 1"
    by (simp add: format_error_world_def)
  from unsupported_values_degrade [of s5 format_error_world ?g "[]" "''zip''"]
    state_at_execution [OF s5] o5 r5
  have i: "\<exists>s'. step format_error_world L395_format s5 = Running L608_on_error s'"
    and j: "exit_status (main format_error_world) = Some EXIT_FAILURE"
    by auto
  from s1 a b s2 c d s3 e f s4 g h s5 i j show ?thesis
    by blast
qed

section \<open>The zero-fill policy in the driver of the specification\<close>

lemma verify_chunks_completes:
  assumes "\<forall>j < length cs. \<not> cancelled (i + j)"
    and "\<forall>c \<in> set cs. failure c \<noteq> Some TruncatedChunk"
  shows "final_state (verify_chunks zero cancelled i offset cs p errs) = Completed
       \<and> map chunk_index (error_records (verify_chunks zero cancelled i offset cs p errs)) =
           map chunk_index errs @ faults i cs
       \<and> digests (verify_chunks zero cancelled i offset cs p errs) =
           Some (pipeline_finalize (foldl pipeline_update p (map (fed zero) cs)))"
  using assms
proof (induction cs arbitrary: i offset p errs)
  case Nil
  then show ?case
    by simp
next
  case (Cons c cs)
  from Cons.prems(1) have now: "\<not> cancelled i"
    by auto
  from Cons.prems(1) have later: "\<forall>j < length cs. \<not> cancelled (Suc i + j)"
    by fastforce
  from Cons.prems(2) have ok: "\<forall>c \<in> set cs. failure c \<noteq> Some TruncatedChunk"
    and this_ok: "failure c \<noteq> Some TruncatedChunk"
    by auto
  show ?case
  proof (cases "failure c")
    case None
    with now Cons.IH [OF later ok] show ?thesis
      by (simp add: fed_def)
  next
    case (Some f)
    with this_ok have "f \<noteq> TruncatedChunk"
      by simp
    with Some now Cons.IH [OF later ok] show ?thesis
      by (cases f) (simp_all add: fed_def)
  qed
qed

lemma foldl_pipeline_update:
  "foldl pipeline_update p xs = map (\<lambda>(h, c). (h, foldl (h_update h) c xs)) p"
  by (induction xs arbitrary: p) (auto simp: pipeline_update_def)

lemma pipeline_reference:
  "pipeline_finalize (foldl pipeline_update (pipeline_start hs) xs) = reference_digests hs xs"
  by (simp add: foldl_pipeline_update pipeline_finalize_def pipeline_start_def reference_digests_def
        comp_def)

lemma streaming_foldl:
  "streaming h \<Longrightarrow> foldl (h_update h) c xs = h_update h c (concat xs)"
  by (induction xs arbitrary: c) (auto simp: streaming_def)

lemma faults_none: "\<forall>c \<in> set cs. failure c = None \<Longrightarrow> faults i cs = []"
  by (induction cs arbitrary: i) auto

lemma faults_one:
  assumes "k < length cs" and "failure (cs ! k) \<noteq> None"
    and "\<forall>j < length cs. j \<noteq> k \<longrightarrow> failure (cs ! j) = None"
  shows "faults i cs = [i + k]"
  using assms
proof (induction cs arbitrary: i k)
  case Nil
  then show ?case
    by simp
next
  case (Cons c cs)
  show ?case
  proof (cases k)
    case 0
    with Cons.prems have "failure c \<noteq> None" and rest: "\<forall>j < length cs. failure (cs ! j) = None"
      by auto
    from rest have "\<forall>c \<in> set cs. failure c = None"
      by (auto simp: in_set_conv_nth)
    then have "faults (Suc i) cs = []"
      by (rule faults_none)
    with \<open>failure c \<noteq> None\<close> 0 show ?thesis
      by simp
  next
    case (Suc k')
    with Cons.prems have "failure c = None"
      by auto
    moreover from Cons.prems Suc have "faults (Suc i) cs = [Suc i + k']"
      by (intro Cons.IH) auto
    ultimately show ?thesis
      using Suc by simp
  qed
qed

lemma fed_zero_filled:
  assumes "one_corrupted k cs"
  shows "map (fed True) cs = zero_filled k cs"
proof (rule nth_equalityI)
  show "length (map (fed True) cs) = length (zero_filled k cs)"
    by (simp add: zero_filled_def)
next
  fix i
  assume "i < length (map (fed True) cs)"
  with assms show "map (fed True) cs ! i = zero_filled k cs ! i"
    by (cases "i = k") (auto simp: one_corrupted_def zero_filled_def fed_def)
qed

text \<open>
  Claim C4, for the driver modelled from the specification. For an evidence set with
  exactly one chunk corrupted by a checksum mismatch, the zero-on-error policy enabled
  and no cancellation, the run ends in \<^verbatim>\<open>Completed\<close>, the error list has exactly
  one entry, with the index of that chunk, and the digest of every active algorithm is
  the digest of the reference hasher fed the stream in which the bytes of that chunk are
  replaced by zeros of the same length; for a streaming hasher this is the digest of the
  concatenation of that stream.
\<close>

theorem zero_fill_single_corruption:
  assumes "one_corrupted k cs"
    and "\<forall>i < length cs. \<not> cancelled i"
  shows "final_state (run_media True cancelled hs cs) = Completed
       \<and> map chunk_index (error_records (run_media True cancelled hs cs)) = [k]
       \<and> digests (run_media True cancelled hs cs) = Some (reference_digests hs (zero_filled k cs))
       \<and> ((\<forall>h \<in> set hs. streaming h) \<longrightarrow>
            digests (run_media True cancelled hs cs) =
              Some (map (\<lambda>h. h_finalize h (h_update h (h_init h) (concat (zero_filled k cs)))) hs))"
proof -
  from assms(1) have k: "k < length cs" and bad: "failure (cs ! k) \<noteq> None"
    and others: "\<forall>j < length cs. j \<noteq> k \<longrightarrow> failure (cs ! j) = None"
    by (auto simp: one_corrupted_def)
  have no_trunc: "\<forall>c \<in> set cs. failure c \<noteq> Some TruncatedChunk"
  proof
    fix c
    assume "c \<in> set cs"
    then obtain j where "j < length cs" and "c = cs ! j"
      by (auto simp: in_set_conv_nth)
    with assms(1) show "failure c \<noteq> Some TruncatedChunk"
      by (cases "j = k") (auto simp: one_corrupted_def)
  qed
  from assms(2) have "\<forall>j < length cs. \<not> cancelled (0 + j)"
    by simp
  from verify_chunks_completes [OF this no_trunc, of True 0 "pipeline_start hs" "[]"]
    faults_one [OF k bad others, of 0] fed_zero_filled [OF assms(1)]
  have main: "final_state (run_media True cancelled hs cs) = Completed
       \<and> map chunk_index (error_records (run_media True cancelled hs cs)) = [k]
       \<and> digests (run_media True cancelled hs cs) = Some (reference_digests hs (zero_filled k cs))"
    by (simp add: run_media_def pipeline_reference)
  moreover have "reference_digests hs (zero_filled k cs) =
      map (\<lambda>h. h_finalize h (h_update h (h_init h) (concat (zero_filled k cs)))) hs"
    if "\<forall>h \<in> set hs. streaming h"
    using that by (simp add: reference_digests_def streaming_foldl)
  ultimately show ?thesis
    by simp
qed

theorem zero_fill_single_corruption_witness:
  "one_corrupted 1 three_chunks
   \<and> streaming byte_sum
   \<and> final_state (run_media True (\<lambda>i. False) [byte_sum] three_chunks) = Completed
   \<and> map chunk_index (error_records (run_media True (\<lambda>i. False) [byte_sum] three_chunks)) = [1]
   \<and> concat (zero_filled 1 three_chunks) = [1, 2, 0, 0, 3]
   \<and> digests (run_media True (\<lambda>i. False) [byte_sum] three_chunks) = Some [6]"
proof -
  have c: "one_corrupted 1 three_chunks"
    by (auto simp: one_corrupted_def three_chunks_def less_Suc_eq)
  have n: "\<forall>i < length three_chunks. \<not> (\<lambda>i. False) i"
    by simp
  have s: "\<forall>h \<in> set [byte_sum]. streaming h"
    by (simp add: streaming_def byte_sum_def)
  have z: "concat (zero_filled 1 three_chunks) = [1, 2, 0, 0, 3]"
    by (simp add: zero_filled_def three_chunks_def)
  note t = zero_fill_single_corruption [OF c n, of "[byte_sum]"]
  from t have a: "final_state (run_media True (\<lambda>i. False) [byte_sum] three_chunks) = Completed"
    and b: "map chunk_index (error_records (run_media True (\<lambda>i. False) [byte_sum] three_chunks)) = [1]"
    by simp_all
  from t s have "digests (run_media True (\<lambda>i. False) [byte_sum] three_chunks) =
      Some (map (\<lambda>h. h_finalize h (h_update h (h_init h) (concat (zero_filled 1 three_chunks)))) [byte_sum])"
    by blast
  then have d: "digests (run_media True (\<lambda>i. False) [byte_sum] three_chunks) = Some [6]"
    unfolding z by (simp add: byte_sum_def)
  from c s a b z d show ?thesis
    by simp
qed

end
